theory Spec2Isabelle
  imports Complex_Main
begin

section \<open>JavaScript values\<close>

text \<open>
  The marketplace front end is TypeScript over a hosted backend client. Of its
  \<open>number\<close>s, quantities, stock levels, use counters and timestamps are \<^typ>\<open>int\<close>, and
  an amount of money is a \<^typ>\<open>rat\<close>: the exact value of the finite double that holds it.
  Sums and products of prices are taken exactly, and what is proved of them compares the
  code with a formula that performs the same operations in the same order. The
  allocation loop of the payout panel, where the result turns on how the remainder is
  rounded, subtracts as binary64 does (see below). \<open>NaN\<close> appears only where the source tests for it (the result of
  \<open>parseFloat\<close>, an \<^typ>\<open>rat option\<close>). A nullable column is an \<open>option\<close>;
  \<open>x || d\<close> is \<open>or_else x d\<close>. Strings are byte strings, and case mapping is the
  ASCII one.
\<close>

definition or_else :: "'a option \<Rightarrow> 'a \<Rightarrow> 'a" where
  "or_else x d = (case x of None \<Rightarrow> d | Some v \<Rightarrow> v)"

definition toLowerChar :: "char \<Rightarrow> char" where
  "toLowerChar c =
     (case map_of (zip ''ABCDEFGHIJKLMNOPQRSTUVWXYZ'' ''abcdefghijklmnopqrstuvwxyz'') c of
        Some l \<Rightarrow> l
      | None \<Rightarrow> c)"

definition toLowerCase :: "string \<Rightarrow> string" where
  "toLowerCase s = map toLowerChar s"

definition toUpperChar :: "char \<Rightarrow> char" where
  "toUpperChar c =
     (case map_of (zip ''abcdefghijklmnopqrstuvwxyz'' ''ABCDEFGHIJKLMNOPQRSTUVWXYZ'') c of
        Some u \<Rightarrow> u
      | None \<Rightarrow> c)"

definition toUpperCase :: "string \<Rightarrow> string" where
  "toUpperCase s = map toUpperChar s"

text \<open>
  \<open>!code.trim()\<close> holds exactly when every character of \<open>code\<close> is white space:
  space, tab, line feed, vertical tab, form feed, carriage return.
\<close>

definition whiteSpace :: "char list" where
  "whiteSpace = [CHR '' '', CHR 0x09, CHR 0x0A, CHR 0x0B, CHR 0x0C, CHR 0x0D]"

definition trim_empty :: "string \<Rightarrow> bool" where
  "trim_empty s = list_all (\<lambda>c. c \<in> set whiteSpace) s"

text \<open>
  Binary64. The double nearest to a rational \<open>x\<close>, ties to the even significand: with
  \<open>2 ^ e \<le> \<bar>x\<bar> < 2 ^ (e + 1)\<close> the doubles around \<open>x\<close> are the multiples of
  \<open>2 ^ (e - 52)\<close>, and below \<open>2 ^ (- 1022)\<close> (the subnormal range) the multiples of
  \<open>2 ^ (- 1074)\<close>. A result of magnitude \<open>2 ^ 1024\<close> or more is an infinity.
\<close>

fun bit_length :: "nat \<Rightarrow> nat" where
  "bit_length n = (if n = 0 then 0 else Suc (bit_length (n div 2)))"

declare bit_length.simps [simp del]

definition pow2 :: "int \<Rightarrow> rat" where
  "pow2 k = (if 0 \<le> k then 2 ^ nat k else 1 / 2 ^ nat (- k))"

text \<open>The exponent \<open>e\<close> of a positive rational: \<open>2 ^ e \<le> x < 2 ^ (e + 1)\<close>.\<close>

definition exponent :: "rat \<Rightarrow> int" where
  "exponent x =
     (if 1 \<le> x then int (bit_length (nat \<lfloor>x\<rfloor>)) - 1
      else (let k = int (bit_length (nat \<lfloor>1 / x\<rfloor>))
            in if x = pow2 (1 - k) then 1 - k else - k))"

text \<open>The integer nearest to a rational that is not negative, ties to the even one.\<close>

definition half_even :: "rat \<Rightarrow> int" where
  "half_even n =
     (let f = \<lfloor>n\<rfloor>; r = n - of_int f
      in if r < 1 / 2 then f
         else if 1 / 2 < r then f + 1
         else if even f then f else f + 1)"

definition nearest_double :: "rat \<Rightarrow> rat" where
  "nearest_double x =
     (if x = 0 then 0
      else (let ulp = pow2 (max (exponent \<bar>x\<bar>) (- 1022) - 52)
            in sgn x * of_int (half_even (\<bar>x\<bar> / ulp)) * ulp))"

text \<open>
  The values the variable \<open>remainingAmount\<close> of the allocation loop can take: a finite
  double, by its exact value, or an infinity a subtraction has overflowed to.
\<close>

datatype double = Finite rat | Infinity | Minus_infinity

definition double_of :: "rat \<Rightarrow> double" where
  "double_of x =
     (let y = nearest_double x
      in if pow2 1024 \<le> y then Infinity
         else if y \<le> - pow2 1024 then Minus_infinity
         else Finite y)"

text \<open>\<open>remainingAmount - allocationAmount\<close>, for a finite \<open>allocationAmount\<close>.\<close>

definition double_minus :: "double \<Rightarrow> rat \<Rightarrow> double" where
  "double_minus remainingAmount allocationAmount =
     (case remainingAmount of
        Finite r \<Rightarrow> double_of (r - allocationAmount)
      | Infinity \<Rightarrow> Infinity
      | Minus_infinity \<Rightarrow> Minus_infinity)"


section \<open>The backend client\<close>

text \<open>
  Modelled from the spec: the hosted backend client (\<open>blink.auth\<close>, \<open>blink.db\<close>) is an
  external collaborator whose code is not part of the repository. Section 6 of the
  specification gives its contract: \<open>auth.me()\<close> returns the current session or rejects;
  \<open>db.<collection>.list({where, orderBy, limit})\<close>, \<open>.create(record)\<close>,
  \<open>.update(id, patch)\<close> and \<open>.delete(id)\<close> read and write one collection. The model is
  an in-memory store with one row list per collection. Every request is appended to a
  log of calls, and a request the environment marks faulty (\<open>fault\<close>) rejects, which the
  calling page observes as a thrown exception.
\<close>

record user =
  user_id :: string
  user_email :: string

record product_row =
  p_id :: string
  p_name :: string
  p_brand :: "string option"
  p_price :: rat
  p_image_url :: "string option"
  p_stock_quantity :: "int option"
  p_condition :: "string option"
  p_category :: "string option"
  p_user_id :: string

record cart_row =
  c_id :: string
  c_user_id :: string
  c_product_id :: string
  c_quantity :: int
  c_created_at :: int

record order_row =
  o_id :: string
  o_user_id :: string
  o_total_amount :: rat
  o_subtotal_amount :: rat
  o_discount_amount :: rat
  o_discount_code :: "string option"
  o_status :: string
  o_shipping_address :: string

record order_item_row =
  oi_id :: string
  oi_order_id :: string
  oi_product_id :: string
  oi_quantity :: int
  oi_price :: rat

datatype discount_type = Percentage | Fixed

record discount_code_row =
  d_id :: string
  d_code :: string
  d_description :: string
  d_discount_type :: discount_type
  d_discount_value :: rat
  d_minimum_order_amount :: rat
  d_max_uses :: "int option"
  d_current_uses :: "int option"
  d_expires_at :: "int option"
  d_is_active :: bool

record discount_use_row =
  du_id :: string
  du_discount_code_id :: string
  du_user_id :: string
  du_order_id :: string
  du_discount_amount :: rat

record earning_row =
  e_id :: string
  e_seller_id :: string
  e_order_id :: string
  e_product_id :: string
  e_quantity :: int
  e_unit_price :: rat
  e_total_earnings :: rat
  e_commission_rate :: rat
  e_commission_amount :: rat
  e_net_earnings :: rat
  e_status :: string
  e_created_at :: int

datatype payment_details =
  Bank_details string string string string
| Paypal_details string
| No_details

record payout_request_row =
  pr_id :: string
  pr_seller_id :: string
  pr_amount :: rat
  pr_status :: string
  pr_payment_method :: string
  pr_payment_details :: payment_details
  pr_notes :: string
  pr_requested_at :: int

record payout_item_row =
  pi_id :: string
  pi_payout_request_id :: string
  pi_seller_earning_id :: string
  pi_amount :: rat

datatype collection =
  Products | CartItems | Orders | OrderItems | DiscountCodes | DiscountCodeUses
| SellerEarnings | PayoutRequests | PayoutItems

text \<open>
  A call names the collection and the key it was made with: the values of the \<open>where\<close>
  clause of a \<open>list\<close>, the identifier of the row created, updated or deleted.
\<close>

datatype call =
  Auth_me
| Db_list collection "string list"
| Db_create collection string
| Db_update collection string
| Db_delete collection string

record world =
  session :: "user option"
  fault :: "call \<Rightarrow> bool"
  clock :: int
  idgen :: "nat \<Rightarrow> string"
  serial :: nat
  calls :: "call list"
  products :: "product_row list"
  cartItems :: "cart_row list"
  orders :: "order_row list"
  orderItems :: "order_item_row list"
  discountCodes :: "discount_code_row list"
  discountCodeUses :: "discount_use_row list"
  sellerEarnings :: "earning_row list"
  payoutRequests :: "payout_request_row list"
  payoutItems :: "payout_item_row list"

definition logged :: "call \<Rightarrow> world \<Rightarrow> world" where
  "logged c w = w\<lparr>calls := calls w @ [c]\<rparr>"

text \<open>A read: the answer, or \<open>None\<close> when the request rejects.\<close>

definition db_read :: "call \<Rightarrow> 'a \<Rightarrow> world \<Rightarrow> 'a option \<times> world" where
  "db_read c answer w = (if fault w c then None else Some answer, logged c w)"

text \<open>A write: the store is changed only when the request does not reject.\<close>

definition db_write :: "call \<Rightarrow> (world \<Rightarrow> world) \<Rightarrow> world \<Rightarrow> bool \<times> world" where
  "db_write c change w = (if fault w c then (False, logged c w) else (True, change (logged c w)))"

definition auth_me :: "world \<Rightarrow> user option \<times> world" where
  "auth_me w = (if fault w Auth_me then None else session w, logged Auth_me w)"

text \<open>\<open>orderBy: { key: 'desc' }\<close>: the rows by descending key.\<close>

definition order_desc :: "('a \<Rightarrow> int) \<Rightarrow> 'a list \<Rightarrow> 'a list" where
  "order_desc key rows = rev (sort_key key rows)"

text \<open>
  Identifiers are built by the pages as \<open>prefix_${Date.now()}_${Math.random()...}\<close>.
  The environment supplies the unpredictable part: the \<open>n\<close>-th identifier drawn is
  \<open>prefix @ idgen n\<close>.
\<close>

definition new_id :: "string \<Rightarrow> world \<Rightarrow> string \<times> world" where
  "new_id prefix w = (prefix @ idgen w (serial w), w\<lparr>serial := Suc (serial w)\<rparr>)"

definition products_by_id :: "string \<Rightarrow> world \<Rightarrow> product_row list option \<times> world" where
  "products_by_id pid w =
     db_read (Db_list Products [pid]) (take 1 (filter (\<lambda>p. p_id p = pid) (products w))) w"


section \<open>App: the route table\<close>

definition adminEmails :: "string list" where
  "adminEmails = [''kai.jiabo.feng@gmail.com'', ''mustafayare2009@gmail.com'']"

definition isAdmin :: "string \<Rightarrow> bool" where
  "isAdmin email = (toLowerCase email \<in> set adminEmails)"

record auth_state =
  as_user :: "user option"
  as_isLoading :: bool

record app_state =
  app_user :: "user option"
  app_loading :: bool
  app_isAdmin :: bool

definition App_initial :: app_state where
  "App_initial = \<lparr>app_user = None, app_loading = True, app_isAdmin = False\<rparr>"

text \<open>
  The handler registered with \<open>onAuthStateChanged\<close>. \<open>state.user?.email\<close> is falsy for a
  missing user and for an empty address; the admin flag then keeps its value.
\<close>

definition onAuthStateChanged :: "auth_state \<Rightarrow> app_state \<Rightarrow> app_state" where
  "onAuthStateChanged state a =
     \<lparr>app_user = as_user state,
      app_loading = as_isLoading state,
      app_isAdmin =
        (case as_user state of
           None \<Rightarrow> app_isAdmin a
         | Some u \<Rightarrow> if user_email u \<noteq> [] then isAdmin (user_email u) else app_isAdmin a)\<rparr>"

text \<open>The paths of the \<open>Route\<close> elements rendered; none while loading or signed out.\<close>

definition App_routes :: "app_state \<Rightarrow> string list" where
  "App_routes a =
     (if app_loading a then []
      else if app_user a = None then []
      else [''/'', ''/product/:id'', ''/cart'', ''/checkout'']
           @ (if app_isAdmin a then [''/admin''] else []))"

definition App_run :: "auth_state list \<Rightarrow> app_state" where
  "App_run events = foldl (\<lambda>a state. onAuthStateChanged state a) App_initial events"


section \<open>Cart and checkout: the view model\<close>

record product_view =
  pv_id :: string
  pv_name :: string
  pv_brand :: string
  pv_price :: rat
  pv_imageUrl :: string
  pv_stockQuantity :: int
  pv_condition :: string
  pv_category :: string

record cart_item =
  ci_id :: string
  ci_userId :: string
  ci_productId :: string
  ci_quantity :: int
  ci_product :: "product_view option"

record applied_discount =
  ad_code :: string
  ad_amount :: rat
  ad_description :: string

text \<open>\<open>item.product?.price || 0\<close>\<close>

definition item_price :: "cart_item \<Rightarrow> rat" where
  "item_price item = (case ci_product item of None \<Rightarrow> 0 | Some p \<Rightarrow> pv_price p)"

definition calculateSubtotal :: "cart_item list \<Rightarrow> rat" where
  "calculateSubtotal cartItems_state =
     foldl (\<lambda>total item. total + item_price item * of_int (ci_quantity item)) 0 cartItems_state"

text \<open>\<open>appliedDiscount?.amount || 0\<close>\<close>

definition discount_amount :: "applied_discount option \<Rightarrow> rat" where
  "discount_amount appliedDiscount = (case appliedDiscount of None \<Rightarrow> 0 | Some d \<Rightarrow> ad_amount d)"

text \<open>
  \<open>Cart.calculateTotal\<close> and \<open>Checkout.calculateTotal\<close> are the same text over each
  page's own \<open>cartItems\<close> and \<open>appliedDiscount\<close>.
\<close>

definition Cart_calculateTotal :: "cart_item list \<Rightarrow> applied_discount option \<Rightarrow> rat" where
  "Cart_calculateTotal cartItems_state appliedDiscount =
     (let subtotal = calculateSubtotal cartItems_state;
          discountAmount = discount_amount appliedDiscount
      in max 0 (subtotal - discountAmount))"

definition Checkout_calculateTotal :: "cart_item list \<Rightarrow> applied_discount option \<Rightarrow> rat" where
  "Checkout_calculateTotal cartItems_state appliedDiscount =
     (let subtotal = calculateSubtotal cartItems_state;
          discountAmount = discount_amount appliedDiscount
      in max 0 (subtotal - discountAmount))"


section \<open>Cart and checkout: loading the cart\<close>

text \<open>The camelCase view of a product row, with the defaults of the source.\<close>

definition to_view :: "product_row \<Rightarrow> product_view" where
  "to_view product =
     \<lparr>pv_id = p_id product,
      pv_name = p_name product,
      pv_brand = or_else (p_brand product) [],
      pv_price = p_price product,
      pv_imageUrl = or_else (p_image_url product) [],
      pv_stockQuantity = or_else (p_stock_quantity product) 0,
      pv_condition = or_else (p_condition product) ''new'',
      pv_category = or_else (p_category product) []\<rparr>"

definition join_row :: "cart_row \<Rightarrow> product_view option \<Rightarrow> cart_item" where
  "join_row item product =
     \<lparr>ci_id = c_id item,
      ci_userId = c_user_id item,
      ci_productId = c_product_id item,
      ci_quantity = c_quantity item,
      ci_product = product\<rparr>"

text \<open>\<open>products[0] ? {...} : null\<close>\<close>

definition first_view :: "product_row list \<Rightarrow> product_view option" where
  "first_view ps = (case ps of [] \<Rightarrow> None | product # _ \<Rightarrow> Some (to_view product))"




text \<open>
  On the checkout page the fetches have no \<open>catch\<close> of their own: all are issued, and one
  rejection rejects the whole \<open>Promise.all\<close>.
\<close>

fun Checkout_fetch_products :: "cart_row list \<Rightarrow> world \<Rightarrow> cart_item list option \<times> world" where
  "Checkout_fetch_products [] w = (Some [], w)"
| "Checkout_fetch_products (item # items) w =
     (case products_by_id (c_product_id item) w of
        (answer, w1) \<Rightarrow>
          (case Checkout_fetch_products items w1 of
             (rest, w2) \<Rightarrow>
               ((case answer of
                   None \<Rightarrow> None
                 | Some ps \<Rightarrow>
                     (case rest of
                        None \<Rightarrow> None
                      | Some joined \<Rightarrow> Some (join_row item (first_view ps) # joined))), w2)))"


text \<open>
  What the join must leave alone: a cart row's own columns, and the same four fields of
  a displayed item.
\<close>

definition row_fields :: "cart_row \<Rightarrow> string \<times> string \<times> string \<times> int" where
  "row_fields r = (c_id r, c_user_id r, c_product_id r, c_quantity r)"

definition item_fields :: "cart_item \<Rightarrow> string \<times> string \<times> string \<times> int" where
  "item_fields i = (ci_id i, ci_userId i, ci_productId i, ci_quantity i)"

text \<open>The product lookup of a row succeeds: the fetch does not reject and finds a row.\<close>

definition lookup_succeeds :: "world \<Rightarrow> cart_row \<Rightarrow> bool" where
  "lookup_succeeds w r =
     (\<not> fault w (Db_list Products [c_product_id r])
      \<and> filter (\<lambda>p. p_id p = c_product_id r) (products w) \<noteq> [])"


section \<open>The discount code widget\<close>

datatype discount_outcome =
  Please_enter_code
| Invalid_code
| Expired_code
| Code_limit_reached
| Minimum_order_not_met
| Already_used
| Discount_applied applied_discount
| Apply_failed

text \<open>\<open>discountCode.expiresAt && new Date(discountCode.expiresAt) < new Date()\<close>\<close>

definition expired :: "discount_code_row \<Rightarrow> int \<Rightarrow> bool" where
  "expired discountCode today =
     (case d_expires_at discountCode of None \<Rightarrow> False | Some t \<Rightarrow> t < today)"

text \<open>\<open>discountCode.maxUses && discountCode.currentUses >= discountCode.maxUses\<close>\<close>

definition exhausted :: "discount_code_row \<Rightarrow> bool" where
  "exhausted discountCode =
     (case d_max_uses discountCode of
        None \<Rightarrow> False
      | Some m \<Rightarrow> m \<noteq> 0 \<and> or_else (d_current_uses discountCode) 0 \<ge> m)"

definition calculate_discount :: "discount_code_row \<Rightarrow> rat \<Rightarrow> rat" where
  "calculate_discount discountCode subtotal =
     (let discountAmount =
            (if d_discount_type discountCode = Percentage
             then (subtotal * d_discount_value discountCode) / 100
             else d_discount_value discountCode)
      in min discountAmount subtotal)"

definition active_codes :: "string \<Rightarrow> world \<Rightarrow> discount_code_row list option \<times> world" where
  "active_codes code w =
     db_read (Db_list DiscountCodes [code, ''1''])
       (take 1 (filter (\<lambda>d. d_code d = code \<and> d_is_active d) (discountCodes w))) w"

definition existing_uses :: "string \<Rightarrow> string \<Rightarrow> world \<Rightarrow> discount_use_row list option \<times> world" where
  "existing_uses did uid w =
     db_read (Db_list DiscountCodeUses [did, uid])
       (take 1 (filter (\<lambda>x. du_discount_code_id x = did \<and> du_user_id x = uid)
          (discountCodeUses w))) w"

definition validateAndApplyDiscount :: "string \<Rightarrow> rat \<Rightarrow> world \<Rightarrow> discount_outcome \<times> world" where
  "validateAndApplyDiscount code subtotal w =
     (if trim_empty code then (Please_enter_code, w)
      else
        (case auth_me w of
           (None, w1) \<Rightarrow> (Apply_failed, w1)
         | (Some u, w1) \<Rightarrow>
             (case active_codes (toUpperCase code) w1 of
                (None, w2) \<Rightarrow> (Apply_failed, w2)
              | (Some [], w2) \<Rightarrow> (Invalid_code, w2)
              | (Some (discountCode # _), w2) \<Rightarrow>
                  if expired discountCode (clock w2) then (Expired_code, w2)
                  else if exhausted discountCode then (Code_limit_reached, w2)
                  else if subtotal < d_minimum_order_amount discountCode
                    then (Minimum_order_not_met, w2)
                  else
                    (case existing_uses (d_id discountCode) (user_id u) w2 of
                       (None, w3) \<Rightarrow> (Apply_failed, w3)
                     | (Some (_ # _), w3) \<Rightarrow> (Already_used, w3)
                     | (Some [], w3) \<Rightarrow>
                         (Discount_applied
                            \<lparr>ad_code = d_code discountCode,
                             ad_amount = calculate_discount discountCode subtotal,
                             ad_description = d_description discountCode\<rparr>, w3)))))"


section \<open>Checkout: submitting the order\<close>

record form_data =
  f_firstName :: string
  f_lastName :: string
  f_email :: string
  f_phone :: string
  f_address :: string
  f_city :: string
  f_state :: string
  f_zipCode :: string
  f_country :: string
  f_cardNumber :: string
  f_expiryDate :: string
  f_cvv :: string
  f_cardName :: string

datatype stock_error =
  Product_not_found
| No_longer_available string
| Insufficient_stock string int int

datatype submit_outcome =
  Required_fields_missing
| Stock_validation_failed "stock_error list"
| Order_placed
| Order_failed

text \<open>
  The message pushed for one line item whose fresh product rows are \<open>currentProducts\<close>,
  if any.
\<close>

definition stock_errors_of :: "cart_item \<Rightarrow> product_view \<Rightarrow> product_row list \<Rightarrow> stock_error list" where
  "stock_errors_of item product currentProducts =
     (case currentProducts of
        [] \<Rightarrow> [No_longer_available (pv_name product)]
      | current # _ \<Rightarrow>
          (let currentStock = or_else (p_stock_quantity current) 0
           in if currentStock < ci_quantity item
              then [Insufficient_stock (pv_name product) currentStock (ci_quantity item)]
              else []))"

text \<open>
  The validation loop awaits one fetch per line item, in order; a rejected fetch throws
  out of the loop (\<open>None\<close>).
\<close>

fun validate_stock :: "cart_item list \<Rightarrow> world \<Rightarrow> stock_error list option \<times> world" where
  "validate_stock [] w = (Some [], w)"
| "validate_stock (item # items) w =
     (case ci_product item of
        None \<Rightarrow>
          (case validate_stock items w of
             (rest, w1) \<Rightarrow> (map_option (\<lambda>errors. Product_not_found # errors) rest, w1))
      | Some product \<Rightarrow>
          (case products_by_id (ci_productId item) w of
             (None, w1) \<Rightarrow> (None, w1)
           | (Some currentProducts, w1) \<Rightarrow>
               (case validate_stock items w1 of
                  (rest, w2) \<Rightarrow>
                    (map_option (\<lambda>errors. stock_errors_of item product currentProducts @ errors) rest,
                     w2))))"

definition shippingAddress :: "form_data \<Rightarrow> string" where
  "shippingAddress formData =
     f_address formData @ '', '' @ f_city formData @ '', '' @ f_state formData @ '' ''
       @ f_zipCode formData @ '', '' @ f_country formData"

definition orders_create :: "order_row \<Rightarrow> world \<Rightarrow> bool \<times> world" where
  "orders_create row w =
     db_write (Db_create Orders (o_id row)) (\<lambda>w. w\<lparr>orders := orders w @ [row]\<rparr>) w"

definition orderItems_create :: "order_item_row \<Rightarrow> world \<Rightarrow> bool \<times> world" where
  "orderItems_create row w =
     db_write (Db_create OrderItems (oi_id row)) (\<lambda>w. w\<lparr>orderItems := orderItems w @ [row]\<rparr>) w"

definition products_update_stock :: "string \<Rightarrow> int \<Rightarrow> world \<Rightarrow> bool \<times> world" where
  "products_update_stock pid newStock w =
     db_write (Db_update Products pid)
       (\<lambda>w. w\<lparr>products :=
          map (\<lambda>p. if p_id p = pid then p\<lparr>p_stock_quantity := Some newStock\<rparr> else p) (products w)\<rparr>) w"

definition sellerEarnings_create :: "earning_row \<Rightarrow> world \<Rightarrow> bool \<times> world" where
  "sellerEarnings_create row w =
     db_write (Db_create SellerEarnings (e_id row))
       (\<lambda>w. w\<lparr>sellerEarnings := sellerEarnings w @ [row]\<rparr>) w"

text \<open>\<open>Math.max(0, item.product.stockQuantity - item.quantity)\<close>, from the stock loaded with the cart.\<close>

definition newStock :: "cart_item \<Rightarrow> product_view \<Rightarrow> int" where
  "newStock item product = max 0 (pv_stockQuantity product - ci_quantity item)"

text \<open>The earnings record of one line: a commission of 5% on price times quantity.\<close>

definition earning_of :: "string \<Rightarrow> string \<Rightarrow> string \<Rightarrow> cart_item \<Rightarrow> product_view \<Rightarrow> int \<Rightarrow> earning_row" where
  "earning_of eid seller orderId item product created =
     (let unitPrice = pv_price product;
          totalEarnings = unitPrice * of_int (ci_quantity item);
          commissionRate = 5 / 100;
          commissionAmount = totalEarnings * commissionRate;
          netEarnings = totalEarnings - commissionAmount
      in \<lparr>e_id = eid,
          e_seller_id = seller,
          e_order_id = orderId,
          e_product_id = ci_productId item,
          e_quantity = ci_quantity item,
          e_unit_price = unitPrice,
          e_total_earnings = totalEarnings,
          e_commission_rate = commissionRate,
          e_commission_amount = commissionAmount,
          e_net_earnings = netEarnings,
          e_status = ''available'',
          e_created_at = created\<rparr>)"

text \<open>
  One round of the second loop: the order item, then (for a line with a product) the
  stock write, the fetch of the seller and the earnings record. \<open>False\<close>: a request
  rejected and the exception left the loop.
\<close>

definition place_item :: "string \<Rightarrow> cart_item \<Rightarrow> world \<Rightarrow> bool \<times> world" where
  "place_item orderId item w =
     (case new_id ''orderitem_'' w of
        (oiid, w1) \<Rightarrow>
          (case orderItems_create
                  \<lparr>oi_id = oiid, oi_order_id = orderId, oi_product_id = ci_productId item,
                   oi_quantity = ci_quantity item, oi_price = item_price item\<rparr> w1 of
             (False, w2) \<Rightarrow> (False, w2)
           | (True, w2) \<Rightarrow>
               (case ci_product item of
                  None \<Rightarrow> (True, w2)
                | Some product \<Rightarrow>
                    (case products_update_stock (ci_productId item) (newStock item product) w2 of
                       (False, w3) \<Rightarrow> (False, w3)
                     | (True, w3) \<Rightarrow>
                         (case products_by_id (ci_productId item) w3 of
                            (None, w4) \<Rightarrow> (False, w4)
                          | (Some [], w4) \<Rightarrow> (True, w4)
                          | (Some (seller # _), w4) \<Rightarrow>
                              (case new_id ''earning_'' w4 of
                                 (eid, w5) \<Rightarrow>
                                   sellerEarnings_create
                                     (earning_of eid (p_user_id seller) orderId item product (clock w5))
                                     w5))))))"

fun place_items :: "string \<Rightarrow> cart_item list \<Rightarrow> world \<Rightarrow> bool \<times> world" where
  "place_items orderId [] w = (True, w)"
| "place_items orderId (item # items) w =
     (case place_item orderId item w of
        (False, w1) \<Rightarrow> (False, w1)
      | (True, w1) \<Rightarrow> place_items orderId items w1)"

text \<open>Recording the use of the applied code, found again by its code alone.\<close>

definition record_discount_use :: "string \<Rightarrow> user \<Rightarrow> applied_discount option \<Rightarrow> world \<Rightarrow> bool \<times> world" where
  "record_discount_use orderId u appliedDiscount w =
     (case appliedDiscount of
        None \<Rightarrow> (True, w)
      | Some applied \<Rightarrow>
          (case db_read (Db_list DiscountCodes [ad_code applied])
                  (take 1 (filter (\<lambda>d. d_code d = ad_code applied) (discountCodes w))) w of
             (None, w1) \<Rightarrow> (False, w1)
           | (Some [], w1) \<Rightarrow> (True, w1)
           | (Some (discountCode # _), w1) \<Rightarrow>
               (case new_id ''usage_'' w1 of
                  (uid, w2) \<Rightarrow>
                    (case db_write (Db_create DiscountCodeUses uid)
                            (\<lambda>w. w\<lparr>discountCodeUses := discountCodeUses w @
                               [\<lparr>du_id = uid, du_discount_code_id = d_id discountCode,
                                 du_user_id = user_id u, du_order_id = orderId,
                                 du_discount_amount = ad_amount applied\<rparr>]\<rparr>) w2 of
                       (False, w3) \<Rightarrow> (False, w3)
                     | (True, w3) \<Rightarrow>
                         db_write (Db_update DiscountCodes (d_id discountCode))
                           (\<lambda>w. w\<lparr>discountCodes :=
                              map (\<lambda>d. if d_id d = d_id discountCode
                                        then d\<lparr>d_current_uses :=
                                               Some (or_else (d_current_uses discountCode) 0 + 1)\<rparr>
                                        else d) (discountCodes w)\<rparr>) w3))))"

definition cartItems_delete :: "string \<Rightarrow> world \<Rightarrow> bool \<times> world" where
  "cartItems_delete cid w =
     db_write (Db_delete CartItems cid)
       (\<lambda>w. w\<lparr>cartItems := filter (\<lambda>r. c_id r \<noteq> cid) (cartItems w)\<rparr>) w"

fun clear_cart :: "cart_item list \<Rightarrow> world \<Rightarrow> bool \<times> world" where
  "clear_cart [] w = (True, w)"
| "clear_cart (item # items) w =
     (case cartItems_delete (ci_id item) w of
        (False, w1) \<Rightarrow> (False, w1)
      | (True, w1) \<Rightarrow> clear_cart items w1)"

text \<open>Everything after the stock validation, inside the \<open>try\<close>.\<close>

definition write_order :: "form_data \<Rightarrow> cart_item list \<Rightarrow> applied_discount option \<Rightarrow> user \<Rightarrow> world \<Rightarrow> bool \<times> world" where
  "write_order formData cartItems_state appliedDiscount u w =
     (case new_id ''order_'' w of
        (orderId, w1) \<Rightarrow>
          (let subtotal = calculateSubtotal cartItems_state;
               discountAmount = discount_amount appliedDiscount;
               totalAmount = Checkout_calculateTotal cartItems_state appliedDiscount
           in case orders_create
                     \<lparr>o_id = orderId, o_user_id = user_id u, o_total_amount = totalAmount,
                      o_subtotal_amount = subtotal, o_discount_amount = discountAmount,
                      o_discount_code =
                        (case appliedDiscount of
                           None \<Rightarrow> None
                         | Some applied \<Rightarrow>
                             if ad_code applied = [] then None else Some (ad_code applied)),
                      o_status = ''completed'',
                      o_shipping_address = shippingAddress formData\<rparr> w1 of
                (False, w2) \<Rightarrow> (False, w2)
              | (True, w2) \<Rightarrow>
                  (case place_items orderId cartItems_state w2 of
                     (False, w3) \<Rightarrow> (False, w3)
                   | (True, w3) \<Rightarrow>
                       (case record_discount_use orderId u appliedDiscount w3 of
                          (False, w4) \<Rightarrow> (False, w4)
                        | (True, w4) \<Rightarrow> clear_cart cartItems_state w4))))"

definition handleSubmit :: "form_data \<Rightarrow> cart_item list \<Rightarrow> applied_discount option \<Rightarrow> world \<Rightarrow> submit_outcome \<times> world" where
  "handleSubmit formData cartItems_state appliedDiscount w =
     (if f_firstName formData = [] \<or> f_lastName formData = [] \<or> f_email formData = []
         \<or> f_address formData = []
      then (Required_fields_missing, w)
      else
        (case auth_me w of
           (None, w1) \<Rightarrow> (Order_failed, w1)
         | (Some u, w1) \<Rightarrow>
             (case validate_stock cartItems_state w1 of
                (None, w2) \<Rightarrow> (Order_failed, w2)
              | (Some stockValidationErrors, w2) \<Rightarrow>
                  if stockValidationErrors \<noteq> []
                  then (Stock_validation_failed stockValidationErrors, w2)
                  else
                    (case write_order formData cartItems_state appliedDiscount u w2 of
                       (False, w3) \<Rightarrow> (Order_failed, w3)
                     | (True, w3) \<Rightarrow> (Order_placed, w3)))))"


section \<open>Adding to the cart\<close>

datatype add_outcome =
  No_product
| Out_of_stock
| Exceeds_stock
| Exceeds_stock_with_cart
| Added_to_cart
| Add_failed

definition cartItems_of_user_product :: "string \<Rightarrow> string \<Rightarrow> world \<Rightarrow> cart_row list option \<times> world" where
  "cartItems_of_user_product uid pid w =
     db_read (Db_list CartItems [uid, pid])
       (filter (\<lambda>r. c_user_id r = uid \<and> c_product_id r = pid) (cartItems w)) w"

definition cartItems_update_quantity :: "string \<Rightarrow> int \<Rightarrow> world \<Rightarrow> bool \<times> world" where
  "cartItems_update_quantity cid newQuantity w =
     db_write (Db_update CartItems cid)
       (\<lambda>w. w\<lparr>cartItems :=
          map (\<lambda>r. if c_id r = cid then r\<lparr>c_quantity := newQuantity\<rparr> else r) (cartItems w)\<rparr>) w"

definition cartItems_create :: "string \<Rightarrow> string \<Rightarrow> int \<Rightarrow> world \<Rightarrow> bool \<times> world" where
  "cartItems_create uid pid quantity w =
     (case new_id ''cart_'' w of
        (cid, w1) \<Rightarrow>
          db_write (Db_create CartItems cid)
            (\<lambda>w. w\<lparr>cartItems := cartItems w @
               [\<lparr>c_id = cid, c_user_id = uid, c_product_id = pid, c_quantity = quantity,
                 c_created_at = clock w\<rparr>]\<rparr>) w1)"

definition added :: "bool \<times> world \<Rightarrow> add_outcome \<times> world" where
  "added r = (if fst r then Added_to_cart else Add_failed, snd r)"

text \<open>The listing page adds one unit.\<close>

definition HomePage_addToCart :: "product_view \<Rightarrow> world \<Rightarrow> add_outcome \<times> world" where
  "HomePage_addToCart product w =
     (if pv_stockQuantity product \<le> 0 then (Out_of_stock, w)
      else
        (case auth_me w of
           (None, w1) \<Rightarrow> (Add_failed, w1)
         | (Some u, w1) \<Rightarrow>
             (case cartItems_of_user_product (user_id u) (pv_id product) w1 of
                (None, w2) \<Rightarrow> (Add_failed, w2)
              | (Some (existing # _), w2) \<Rightarrow>
                  (let newQuantity = c_quantity existing + 1
                   in if newQuantity > pv_stockQuantity product then (Exceeds_stock_with_cart, w2)
                      else added (cartItems_update_quantity (c_id existing) newQuantity w2))
              | (Some [], w2) \<Rightarrow>
                  added (cartItems_create (user_id u) (pv_id product) 1 w2))))"

text \<open>The product page adds the selected quantity.\<close>

definition ProductDetails_addToCart :: "product_view option \<Rightarrow> int \<Rightarrow> world \<Rightarrow> add_outcome \<times> world" where
  "ProductDetails_addToCart product_state quantity w =
     (case product_state of
        None \<Rightarrow> (No_product, w)
      | Some product \<Rightarrow>
          if pv_stockQuantity product \<le> 0 then (Out_of_stock, w)
          else if quantity > pv_stockQuantity product then (Exceeds_stock, w)
          else
            (case auth_me w of
               (None, w1) \<Rightarrow> (Add_failed, w1)
             | (Some u, w1) \<Rightarrow>
                 (case cartItems_of_user_product (user_id u) (pv_id product) w1 of
                    (None, w2) \<Rightarrow> (Add_failed, w2)
                  | (Some (existing # _), w2) \<Rightarrow>
                      (let newQuantity = c_quantity existing + quantity
                       in if newQuantity > pv_stockQuantity product
                          then (Exceeds_stock_with_cart, w2)
                          else added (cartItems_update_quantity (c_id existing) newQuantity w2))
                  | (Some [], w2) \<Rightarrow>
                      added (cartItems_create (user_id u) (pv_id product) quantity w2))))"

text \<open>
  The book page adds one copy. Its cart rows carry the book in the column the other pages
  use for the product; it compares nothing with \<open>book.stockQuantity\<close>.
\<close>

record book =
  b_id :: string
  b_title :: string
  b_price :: rat
  b_stockQuantity :: int

definition BookDetails_addToCart :: "book option \<Rightarrow> world \<Rightarrow> add_outcome \<times> world" where
  "BookDetails_addToCart book_state w =
     (case book_state of
        None \<Rightarrow> (No_product, w)
      | Some b \<Rightarrow>
          (case auth_me w of
             (None, w1) \<Rightarrow> (Add_failed, w1)
           | (Some u, w1) \<Rightarrow>
               (case cartItems_of_user_product (user_id u) (b_id b) w1 of
                  (None, w2) \<Rightarrow> (Add_failed, w2)
                | (Some (existing # _), w2) \<Rightarrow>
                    added (cartItems_update_quantity (c_id existing) (c_quantity existing + 1) w2)
                | (Some [], w2) \<Rightarrow>
                    added (cartItems_create (user_id u) (b_id b) 1 w2))))"


section \<open>Seller payouts\<close>

text \<open>An earning as the panel holds it: the row and the product joined to it, if found.\<close>

type_synonym seller_earning = "earning_row \<times> product_row option"

record payout_stats =
  totalEarnings :: rat
  availableBalance :: rat
  pendingPayouts :: nat
  completedPayouts :: nat

record payouts_state =
  earnings :: "seller_earning list"
  payoutRequests_state :: "payout_request_row list"
  stats :: payout_stats

text \<open>
  The payout form. Its \<open>amount\<close> field is held by the value \<open>parseFloat\<close> gives it, with
  \<open>None\<close> for \<open>NaN\<close>.
\<close>

record payout_form =
  pf_amount :: "rat option"
  pf_paymentMethod :: string
  pf_bankName :: string
  pf_accountNumber :: string
  pf_sortCode :: string
  pf_accountHolderName :: string
  pf_paypalEmail :: string
  pf_notes :: string

datatype payout_outcome =
  Invalid_amount
| Insufficient_balance
| Payout_submitted
| Payout_failed

definition netEarnings :: "seller_earning \<Rightarrow> rat" where
  "netEarnings earning = e_net_earnings (fst earning)"

definition available :: "seller_earning \<Rightarrow> bool" where
  "available earning = (e_status (fst earning) = ''available'')"

text \<open>\<open>Promise.all\<close> over the earnings, with no \<open>catch\<close> of its own.\<close>

fun earnings_fetch_products :: "earning_row list \<Rightarrow> world \<Rightarrow> seller_earning list option \<times> world" where
  "earnings_fetch_products [] w = (Some [], w)"
| "earnings_fetch_products (earning # rest) w =
     (case products_by_id (e_product_id earning) w of
        (answer, w1) \<Rightarrow>
          (case earnings_fetch_products rest w1 of
             (others, w2) \<Rightarrow>
               ((case answer of
                   None \<Rightarrow> None
                 | Some ps \<Rightarrow>
                     (case others of
                        None \<Rightarrow> None
                      | Some joined \<Rightarrow>
                          Some ((earning, case ps of [] \<Rightarrow> None | product # _ \<Rightarrow> Some product)
                                  # joined))), w2)))"

definition sum_net :: "seller_earning list \<Rightarrow> rat" where
  "sum_net es = foldl (\<lambda>sum earning. sum + netEarnings earning) 0 es"

definition loadEarnings :: "payouts_state \<Rightarrow> world \<Rightarrow> payouts_state \<times> world" where
  "loadEarnings st w =
     (case auth_me w of
        (None, w1) \<Rightarrow> (st, w1)
      | (Some u, w1) \<Rightarrow>
          (case db_read (Db_list SellerEarnings [user_id u])
                  (order_desc e_created_at
                     (filter (\<lambda>e. e_seller_id e = user_id u) (sellerEarnings w1))) w1 of
             (None, w2) \<Rightarrow> (st, w2)
           | (Some earningsData, w2) \<Rightarrow>
               (case earnings_fetch_products earningsData w2 of
                  (None, w3) \<Rightarrow> (st, w3)
                | (Some earningsWithProducts, w3) \<Rightarrow>
                    (st\<lparr>earnings := earningsWithProducts,
                        stats := (stats st)
                          \<lparr>totalEarnings := sum_net earningsWithProducts,
                           availableBalance := sum_net (filter available earningsWithProducts)\<rparr>\<rparr>,
                     w3))))"

definition loadPayoutRequests :: "payouts_state \<Rightarrow> world \<Rightarrow> payouts_state \<times> world" where
  "loadPayoutRequests st w =
     (case auth_me w of
        (None, w1) \<Rightarrow> (st, w1)
      | (Some u, w1) \<Rightarrow>
          (case db_read (Db_list PayoutRequests [user_id u])
                  (order_desc pr_requested_at
                     (filter (\<lambda>r. pr_seller_id r = user_id u) (payoutRequests w1))) w1 of
             (None, w2) \<Rightarrow> (st, w2)
           | (Some requests, w2) \<Rightarrow>
               (st\<lparr>payoutRequests_state := requests,
                   stats := (stats st)
                     \<lparr>pendingPayouts := length (filter (\<lambda>r. pr_status r = ''pending'') requests),
                      completedPayouts :=
                        length (filter (\<lambda>r. pr_status r = ''completed'') requests)\<rparr>\<rparr>,
                w2)))"

text \<open>\<open>await Promise.all([loadEarnings(), loadPayoutRequests()])\<close>; each catches its own failure.\<close>

definition reload :: "payouts_state \<Rightarrow> world \<Rightarrow> payouts_state \<times> world" where
  "reload st w = (case loadEarnings st w of (st1, w1) \<Rightarrow> loadPayoutRequests st1 w1)"

definition paymentDetails :: "payout_form \<Rightarrow> payment_details" where
  "paymentDetails form =
     (if pf_paymentMethod form = ''bank_transfer''
      then Bank_details (pf_bankName form) (pf_accountNumber form) (pf_sortCode form)
             (pf_accountHolderName form)
      else if pf_paymentMethod form = ''paypal'' then Paypal_details (pf_paypalEmail form)
      else No_details)"

definition payoutItems_create :: "payout_item_row \<Rightarrow> world \<Rightarrow> bool \<times> world" where
  "payoutItems_create row w =
     db_write (Db_create PayoutItems (pi_id row)) (\<lambda>w. w\<lparr>payoutItems := payoutItems w @ [row]\<rparr>) w"

definition sellerEarnings_update_status :: "string \<Rightarrow> string \<Rightarrow> world \<Rightarrow> bool \<times> world" where
  "sellerEarnings_update_status eid status w =
     db_write (Db_update SellerEarnings eid)
       (\<lambda>w. w\<lparr>sellerEarnings :=
          map (\<lambda>e. if e_id e = eid then e\<lparr>e_status := status\<rparr> else e) (sellerEarnings w)\<rparr>) w"

text \<open>
  The head of one round of the allocation loop: \<open>None\<close> when \<open>remainingAmount <= 0\<close>
  breaks out of it, else \<open>Math.min(remainingAmount, earning.netEarnings)\<close>.
\<close>

definition allocationAmount_of :: "double \<Rightarrow> rat \<Rightarrow> rat option" where
  "allocationAmount_of remainingAmount net =
     (case remainingAmount of
        Finite r \<Rightarrow> if r \<le> 0 then None else Some (min r net)
      | Infinity \<Rightarrow> Some net
      | Minus_infinity \<Rightarrow> None)"

text \<open>
  The allocation loop over the available earnings, in the order the panel holds them,
  with the amount still to cover.
\<close>

fun allocate :: "string \<Rightarrow> seller_earning list \<Rightarrow> double \<Rightarrow> world \<Rightarrow> bool \<times> world" where
  "allocate payoutRequestId [] remainingAmount w = (True, w)"
| "allocate payoutRequestId (earning # rest) remainingAmount w =
     (case allocationAmount_of remainingAmount (netEarnings earning) of
        None \<Rightarrow> (True, w)
      | Some allocationAmount \<Rightarrow>
          (case new_id ''payoutitem_'' w of
             (iid, w1) \<Rightarrow>
               (case payoutItems_create
                       \<lparr>pi_id = iid, pi_payout_request_id = payoutRequestId,
                        pi_seller_earning_id = e_id (fst earning),
                        pi_amount = allocationAmount\<rparr> w1 of
                  (False, w2) \<Rightarrow> (False, w2)
                | (True, w2) \<Rightarrow>
                    (case sellerEarnings_update_status (e_id (fst earning)) ''pending_payout'' w2 of
                       (False, w3) \<Rightarrow> (False, w3)
                     | (True, w3) \<Rightarrow>
                         allocate payoutRequestId rest
                           (double_minus remainingAmount allocationAmount) w3))))"

text \<open>The body of the \<open>try\<close>, up to the success notification.\<close>

definition submit_payout :: "payout_form \<Rightarrow> rat \<Rightarrow> payouts_state \<Rightarrow> world \<Rightarrow> bool \<times> world" where
  "submit_payout form requestAmount st w =
     (case auth_me w of
        (None, w1) \<Rightarrow> (False, w1)
      | (Some u, w1) \<Rightarrow>
          (case new_id ''payout_'' w1 of
             (payoutRequestId, w2) \<Rightarrow>
               (case db_write (Db_create PayoutRequests payoutRequestId)
                       (\<lambda>w. w\<lparr>payoutRequests := payoutRequests w @
                          [\<lparr>pr_id = payoutRequestId, pr_seller_id = user_id u,
                            pr_amount = requestAmount, pr_status = ''pending'',
                            pr_payment_method = pf_paymentMethod form,
                            pr_payment_details = paymentDetails form,
                            pr_notes = pf_notes form, pr_requested_at = clock w\<rparr>]\<rparr>) w2 of
                  (False, w3) \<Rightarrow> (False, w3)
                | (True, w3) \<Rightarrow>
                    allocate payoutRequestId (filter available (earnings st))
                      (Finite requestAmount) w3)))"

text \<open>
  \<open>!requestAmount || requestAmount <= 0\<close> rejects \<open>NaN\<close>, zero and negative amounts. The
  two rejections return before the \<open>try\<close>; after a successful submission the panel
  reloads its data.
\<close>

definition handlePayoutRequest :: "payout_form \<Rightarrow> payouts_state \<Rightarrow> world \<Rightarrow> payout_outcome \<times> payouts_state \<times> world" where
  "handlePayoutRequest form st w =
     (case pf_amount form of
        None \<Rightarrow> (Invalid_amount, st, w)
      | Some requestAmount \<Rightarrow>
          if requestAmount = 0 \<or> requestAmount \<le> 0 then (Invalid_amount, st, w)
          else if requestAmount > availableBalance (stats st) then (Insufficient_balance, st, w)
          else
            (case submit_payout form requestAmount st w of
               (False, w1) \<Rightarrow> (Payout_failed, st, w1)
             | (True, w1) \<Rightarrow>
                 (case reload st w1 of (st2, w2) \<Rightarrow> (Payout_submitted, st2, w2))))"


section \<open>A small shop\<close>

text \<open>
  A concrete store on which the theorems below are instantiated: two products, a buyer
  \<open>u1\<close> with two cart rows worth 100 together, another user's cart row, the code
  \<open>SAVE10\<close> (10 percent from 50 up), and three earnings of \<open>u1\<close> as a seller.
\<close>

definition buyer :: user where
  "buyer = \<lparr>user_id = ''u1'', user_email = ''reader@example.org''\<rparr>"

definition lamp :: product_row where
  "lamp = \<lparr>p_id = ''p1'', p_name = ''Lamp'', p_brand = None, p_price = 30,
            p_image_url = None, p_stock_quantity = Some 5, p_condition = None,
            p_category = Some ''home-garden'', p_user_id = ''s1''\<rparr>"

definition desk :: product_row where
  "desk = \<lparr>p_id = ''p2'', p_name = ''Desk'', p_brand = Some ''Oak'', p_price = 20,
            p_image_url = None, p_stock_quantity = Some 4, p_condition = Some ''used'',
            p_category = Some ''home-garden'', p_user_id = ''s2''\<rparr>"

definition save10 :: discount_code_row where
  "save10 = \<lparr>d_id = ''d1'', d_code = ''SAVE10'', d_description = ''Ten percent off'',
              d_discount_type = Percentage, d_discount_value = 10,
              d_minimum_order_amount = 50, d_max_uses = Some 100, d_current_uses = Some 3,
              d_expires_at = Some 2000, d_is_active = True\<rparr>"

definition earned :: "string \<Rightarrow> rat \<Rightarrow> string \<Rightarrow> int \<Rightarrow> earning_row" where
  "earned eid net status created =
     \<lparr>e_id = eid, e_seller_id = ''u1'', e_order_id = ''o0'', e_product_id = ''p1'',
      e_quantity = 1, e_unit_price = net * 20 / 19, e_total_earnings = net * 20 / 19,
      e_commission_rate = 5 / 100, e_commission_amount = net / 19, e_net_earnings = net,
      e_status = status, e_created_at = created\<rparr>"

definition shop :: world where
  "shop =
     \<lparr>session = Some buyer,
      fault = (\<lambda>c. False),
      clock = 1000,
      idgen = (\<lambda>n. replicate n CHR ''i''),
      serial = 0,
      calls = [],
      products = [lamp, desk],
      cartItems =
        [\<lparr>c_id = ''c1'', c_user_id = ''u1'', c_product_id = ''p1'', c_quantity = 2, c_created_at = 10\<rparr>,
         \<lparr>c_id = ''c2'', c_user_id = ''u1'', c_product_id = ''p2'', c_quantity = 2, c_created_at = 20\<rparr>,
         \<lparr>c_id = ''c3'', c_user_id = ''u2'', c_product_id = ''p1'', c_quantity = 1, c_created_at = 30\<rparr>],
      orders = [],
      orderItems = [],
      discountCodes = [save10],
      discountCodeUses = [],
      sellerEarnings =
        [earned ''e1'' 40 ''available'' 1, earned ''e2'' 25 ''available'' 2,
         earned ''e3'' 10 ''paid_out'' 3],
      payoutRequests = [],
      payoutItems = []\<rparr>"


text \<open>
  Variants of the shop: two active records with the code \<open>SAVE10\<close>, the first one used
  up; a record whose code is a single space; a fixed discount of 150; and the shop after
  the code has expired. A filled checkout form and a line of lamps.
\<close>

definition shop_twice :: world where
  "shop_twice = shop\<lparr>discountCodes := [save10\<lparr>d_id := ''d0'', d_max_uses := Some 3\<rparr>, save10]\<rparr>"

definition shop_blank :: world where
  "shop_blank = shop\<lparr>discountCodes := [save10\<lparr>d_code := '' ''\<rparr>]\<rparr>"

definition shop_fixed :: world where
  "shop_fixed = shop\<lparr>discountCodes := [save10\<lparr>d_discount_type := Fixed, d_discount_value := 150\<rparr>]\<rparr>"

definition filled_form :: form_data where
  "filled_form =
     \<lparr>f_firstName = ''Ada'', f_lastName = ''Reader'', f_email = ''reader@example.org'',
      f_phone = [], f_address = ''1 High Street'', f_city = ''Leeds'', f_state = [],
      f_zipCode = ''LS1'', f_country = ''United Kingdom'', f_cardNumber = [],
      f_expiryDate = [], f_cvv = [], f_cardName = []\<rparr>"

definition lamp_line :: "int \<Rightarrow> cart_item" where
  "lamp_line quantity =
     \<lparr>ci_id = ''c1'', ci_userId = ''u1'', ci_productId = ''p1'', ci_quantity = quantity,
      ci_product = Some (to_view lamp)\<rparr>"

definition shop_late :: world where
  "shop_late = shop\<lparr>clock := 3000\<rparr>"




text \<open>
  The shop after the lamp was restocked to 8 (the cart page still shows 5), and a book
  page for the lamp's identifier that shows 2 in stock.
\<close>

definition shop_restocked :: world where
  "shop_restocked = shop\<lparr>products := [lamp\<lparr>p_stock_quantity := Some 8\<rparr>, desk]\<rparr>"

definition lamp_book :: book where
  "lamp_book = \<lparr>b_id = ''p1'', b_title = ''Lamps'', b_price = 30, b_stockQuantity = 2\<rparr>"

definition signed_in :: "string \<Rightarrow> string \<Rightarrow> auth_state" where
  "signed_in uid email =
     \<lparr>as_user = Some \<lparr>user_id = uid, user_email = email\<rparr>, as_isLoading = False\<rparr>"

definition signed_out :: auth_state where
  "signed_out = \<lparr>as_user = None, as_isLoading = False\<rparr>"

text \<open>An administrator signs in and out again, and then comes another sign-in.\<close>

definition after_admin :: "auth_state \<Rightarrow> auth_state list" where
  "after_admin state = [signed_in ''u0'' ''Kai.Jiabo.Feng@gmail.com'', signed_out, state]"


section \<open>Vocabulary of the properties\<close>

text \<open>No request rejects.\<close>

definition no_faults :: "world \<Rightarrow> bool" where
  "no_faults w = (\<forall>c. \<not> fault w c)"

text \<open>
  A call that only reads, and a run that made only such calls: the store after it is the
  store before it, with a longer log.
\<close>

fun is_read :: "call \<Rightarrow> bool" where
  "is_read Auth_me = True"
| "is_read (Db_list collection keys) = True"
| "is_read (Db_create collection key) = False"
| "is_read (Db_update collection key) = False"
| "is_read (Db_delete collection key) = False"

definition only_reads :: "world \<Rightarrow> world \<Rightarrow> bool" where
  "only_reads w w' = (\<exists>cs. list_all is_read cs \<and> w' = w\<lparr>calls := calls w @ cs\<rparr>)"

text \<open>
  The discount widget in words. The record the lookup returns is the first active record
  whose code is the entry; a record is usable by a user for a subtotal when it is
  unexpired, under its maximum of uses when one is set, the subtotal reaches its minimum
  order amount, and the user has no usage record for it.
\<close>

definition first_active_match :: "string \<Rightarrow> world \<Rightarrow> discount_code_row option" where
  "first_active_match code w =
     (case filter (\<lambda>d. d_code d = code \<and> d_is_active d) (discountCodes w) of
        [] \<Rightarrow> None
      | discountCode # _ \<Rightarrow> Some discountCode)"

definition used_by :: "world \<Rightarrow> user \<Rightarrow> discount_code_row \<Rightarrow> bool" where
  "used_by w u discountCode =
     list_ex (\<lambda>x. du_discount_code_id x = d_id discountCode \<and> du_user_id x = user_id u)
       (discountCodeUses w)"

definition usable_by :: "world \<Rightarrow> user \<Rightarrow> rat \<Rightarrow> discount_code_row \<Rightarrow> bool" where
  "usable_by w u subtotal discountCode =
     (\<not> expired discountCode (clock w) \<and> \<not> exhausted discountCode
      \<and> d_minimum_order_amount discountCode \<le> subtotal \<and> \<not> used_by w u discountCode)"

text \<open>The claim's reading: some record matching the entry is active and usable.\<close>

definition some_code_usable :: "world \<Rightarrow> user \<Rightarrow> string \<Rightarrow> rat \<Rightarrow> bool" where
  "some_code_usable w u code subtotal =
     list_ex (\<lambda>d. d_code d = toUpperCase code \<and> d_is_active d \<and> usable_by w u subtotal d)
       (discountCodes w)"

definition accepted :: "discount_outcome \<Rightarrow> bool" where
  "accepted outcome = (case outcome of Discount_applied applied \<Rightarrow> True | _ \<Rightarrow> False)"

text \<open>The discount in words: the value, or the percentage of the subtotal, capped at the subtotal.\<close>

definition capped_discount :: "discount_code_row \<Rightarrow> rat \<Rightarrow> rat" where
  "capped_discount discountCode subtotal =
     (case d_discount_type discountCode of
        Fixed \<Rightarrow> min subtotal (d_discount_value discountCode)
      | Percentage \<Rightarrow> min subtotal (subtotal * d_discount_value discountCode / 100))"

text \<open>The widget turned the entry down after looking it up.\<close>

definition turned_down :: "discount_outcome \<Rightarrow> bool" where
  "turned_down outcome =
     (outcome = Invalid_code \<or> outcome = Expired_code \<or> outcome = Code_limit_reached
      \<or> outcome = Minimum_order_not_met \<or> outcome = Already_used)"

text \<open>
  Totals in words. The subtotal of a cart is the sum over its lines, from the first to
  the last, of the price of the line's product times the quantity; a line without a
  product counts nothing.
\<close>

definition line_total :: "cart_item \<Rightarrow> rat" where
  "line_total item =
     (case ci_product item of
        None \<Rightarrow> 0
      | Some product \<Rightarrow> pv_price product * of_int (ci_quantity item))"

definition cart_subtotal :: "cart_item list \<Rightarrow> rat" where
  "cart_subtotal items = foldl (\<lambda>sum item. sum + line_total item) 0 items"

text \<open>
  Stock writes at checkout. A product row carries a clamped write when some line item of
  its product has set its stock to \<open>max(0, stockQuantity - quantity)\<close>, computed from the
  stock loaded with the cart. After a checkout every product row is a row of the store
  before it or carries a clamped write; in particular no new row has a negative stock.
\<close>

definition clamped_write :: "cart_item list \<Rightarrow> product_row \<Rightarrow> bool" where
  "clamped_write items p =
     list_ex (\<lambda>item. case ci_product item of
                 None \<Rightarrow> False
               | Some product \<Rightarrow>
                   ci_productId item = p_id p
                   \<and> p_stock_quantity p
                       = Some (max 0 (pv_stockQuantity product - ci_quantity item))) items"

definition stock_kept_or_clamped :: "cart_item list \<Rightarrow> world \<Rightarrow> world \<Rightarrow> bool" where
  "stock_kept_or_clamped items w w' =
     list_all (\<lambda>p. p \<in> set (products w) \<or> clamped_write items p) (products w')"

definition stock_of :: "product_row \<Rightarrow> int" where
  "stock_of p = or_else (p_stock_quantity p) 0"

definition never_negative :: "world \<Rightarrow> world \<Rightarrow> bool" where
  "never_negative w w' = list_all (\<lambda>p. p \<in> set (products w) \<or> 0 \<le> stock_of p) (products w')"

text \<open>
  Adding to the cart: the row the lookup puts first for a user and a product, and the
  cart rows with the quantity of one row replaced.
\<close>

definition existing_row :: "string \<Rightarrow> string \<Rightarrow> world \<Rightarrow> cart_row option" where
  "existing_row uid pid w =
     (case filter (\<lambda>r. c_user_id r = uid \<and> c_product_id r = pid) (cartItems w) of
        [] \<Rightarrow> None
      | existing # _ \<Rightarrow> Some existing)"

definition with_quantity :: "string \<Rightarrow> int \<Rightarrow> cart_row list \<Rightarrow> cart_row list" where
  "with_quantity cid quantity rows =
     map (\<lambda>r. if c_id r = cid then r\<lparr>c_quantity := quantity\<rparr> else r) rows"

text \<open>The admin flag agrees with the allow-list for the user signed in.\<close>

definition admin_flag_ok :: "app_state \<Rightarrow> bool" where
  "admin_flag_ok a =
     (case app_user a of None \<Rightarrow> True | Some u \<Rightarrow> app_isAdmin a = isAdmin (user_email u))"

text \<open>What the cart page makes of one fetched row.\<close>

definition joined :: "world \<Rightarrow> cart_row \<Rightarrow> cart_item" where
  "joined w r =
     join_row r (if fault w (Db_list Products [c_product_id r]) then None
                 else first_view (take 1 (filter (\<lambda>p. p_id p = c_product_id r) (products w))))"

text \<open>
  The payout panel's balance is the sum over the available earnings it holds, as
  \<open>loadEarnings\<close> computes it.
\<close>

definition balance_consistent :: "payouts_state \<Rightarrow> bool" where
  "balance_consistent st =
     (availableBalance (stats st) = sum_net (filter available (earnings st)))"


text \<open>
  Greedy allocation in words: walk the earnings in the order given and take from each
  the smaller of its net amount and what remains to be covered, as long as something
  remains. What remains after a step is the difference as binary64 rounds it; an infinite
  remainder is above every net amount and stays infinite.
\<close>

fun portions :: "seller_earning list \<Rightarrow> double \<Rightarrow> (string \<times> rat) list" where
  "portions [] remaining = []"
| "portions (earning # rest) remaining =
     (case remaining of
        Finite r \<Rightarrow>
          if r \<le> 0 then []
          else (e_id (fst earning), min r (netEarnings earning))
                 # portions rest (double_of (r - min r (netEarnings earning)))
      | Infinity \<Rightarrow> (e_id (fst earning), netEarnings earning) # portions rest Infinity
      | Minus_infinity \<Rightarrow> [])"

definition item_portion :: "payout_item_row \<Rightarrow> string \<times> rat" where
  "item_portion i = (pi_seller_earning_id i, pi_amount i)"

definition mark_pending :: "string set \<Rightarrow> earning_row \<Rightarrow> earning_row" where
  "mark_pending ids e = (if e_id e \<in> ids then e\<lparr>e_status := ''pending_payout''\<rparr> else e)"

text \<open>The effect of the allocation loop on the store.\<close>

definition allocated :: "string \<Rightarrow> seller_earning list \<Rightarrow> double \<Rightarrow> world \<Rightarrow> world \<Rightarrow> bool" where
  "allocated payoutRequestId es remaining w w' =
     (\<exists>items.
        payoutItems w' = payoutItems w @ items
      \<and> map item_portion items = portions es remaining
      \<and> list_all (\<lambda>i. pi_payout_request_id i = payoutRequestId) items
      \<and> sellerEarnings w'
          = map (mark_pending (fst ` set (portions es remaining))) (sellerEarnings w)
      \<and> payoutRequests w' = payoutRequests w
      \<and> no_faults w' \<and> session w' = session w)"

text \<open>The payout panel of the small shop, freshly loaded, and a PayPal payout form.\<close>

definition empty_panel :: payouts_state where
  "empty_panel =
     \<lparr>earnings = [], payoutRequests_state = [],
      stats = \<lparr>totalEarnings = 0, availableBalance = 0, pendingPayouts = 0,
               completedPayouts = 0\<rparr>\<rparr>"

definition panel :: payouts_state where
  "panel = fst (loadEarnings empty_panel shop)"

definition payout_form_of :: "rat option \<Rightarrow> payout_form" where
  "payout_form_of a =
     \<lparr>pf_amount = a, pf_paymentMethod = ''paypal'', pf_bankName = [],
      pf_accountNumber = [], pf_sortCode = [], pf_accountHolderName = [],
      pf_paypalEmail = ''reader@example.org'', pf_notes = []\<rparr>"

text \<open>
  The doubles nearest to 0.1, 0.7 and 0.8, and the shop where the seller's earnings are
  5, 0.7 and 0.1, all available, the smallest being the newest; its payout panel.
\<close>

definition tenth :: rat where
  "tenth = 3602879701896397 / 36028797018963968"

definition seven_tenths :: rat where
  "seven_tenths = 3152519739159347 / 4503599627370496"

definition eight_tenths :: rat where
  "eight_tenths = 3602879701896397 / 4503599627370496"

definition shop_pence :: world where
  "shop_pence =
     shop\<lparr>sellerEarnings :=
            [earned ''e4'' 5 ''available'' 4, earned ''e5'' seven_tenths ''available'' 5,
             earned ''e6'' tenth ''available'' 6]\<rparr>"

definition pence_panel :: payouts_state where
  "pence_panel = fst (loadEarnings empty_panel shop_pence)"





definition passes :: "world \<Rightarrow> cart_item \<Rightarrow> bool" where
  "passes w item =
     (case ci_product item of
        None \<Rightarrow> False
      | Some product \<Rightarrow>
          (case filter (\<lambda>p. p_id p = ci_productId item) (products w) of
             [] \<Rightarrow> False
           | current # _ \<Rightarrow> ci_quantity item \<le> stock_of current))"


text \<open>
  The stock write of one line, the effect of the order loop on the store, and the effect
  of a completed checkout.
\<close>

definition stock_step :: "cart_item \<Rightarrow> product_row list \<Rightarrow> product_row list" where
  "stock_step item ps =
     (case ci_product item of
        None \<Rightarrow> ps
      | Some product \<Rightarrow>
          map (\<lambda>p. if p_id p = ci_productId item
                    then p\<lparr>p_stock_quantity := Some (newStock item product)\<rparr> else p) ps)"




section \<open>The backend calls leave the rest of the store alone\<close>

lemma logged_fields [simp]:
  "session (logged c w) = session w" "fault (logged c w) = fault w"
  "clock (logged c w) = clock w" "idgen (logged c w) = idgen w"
  "serial (logged c w) = serial w" "calls (logged c w) = calls w @ [c]"
  "products (logged c w) = products w" "cartItems (logged c w) = cartItems w"
  "orders (logged c w) = orders w" "orderItems (logged c w) = orderItems w"
  "discountCodes (logged c w) = discountCodes w"
  "discountCodeUses (logged c w) = discountCodeUses w"
  "sellerEarnings (logged c w) = sellerEarnings w"
  "payoutRequests (logged c w) = payoutRequests w"
  "payoutItems (logged c w) = payoutItems w"
  by (simp_all add: logged_def)

lemma products_by_id_eq:
  "products_by_id pid w =
     (if fault w (Db_list Products [pid]) then None
      else Some (take 1 (filter (\<lambda>p. p_id p = pid) (products w))),
      logged (Db_list Products [pid]) w)"
  by (simp add: products_by_id_def db_read_def)


section \<open>The admin route\<close>

lemma onAuthStateChanged_flag_ok:
  assumes "\<And>u. as_user state = Some u \<Longrightarrow> user_email u \<noteq> []"
  shows "admin_flag_ok (onAuthStateChanged state a)"
  using assms by (cases "as_user state") (simp_all add: admin_flag_ok_def onAuthStateChanged_def)

lemma foldl_flag_ok:
  assumes "\<forall>state \<in> set events. \<forall>u. as_user state = Some u \<longrightarrow> user_email u \<noteq> []"
    and "admin_flag_ok a"
  shows "admin_flag_ok (foldl (\<lambda>a state. onAuthStateChanged state a) a events)"
  using assms
proof (induction events arbitrary: a)
  case Nil
  then show ?case by simp
next
  case (Cons state events)
  have "admin_flag_ok (onAuthStateChanged state a)"
    using Cons.prems(1) by (intro onAuthStateChanged_flag_ok) simp
  with Cons show ?case by simp
qed

lemma App_run_flag_ok:
  assumes "\<forall>state \<in> set events. \<forall>u. as_user state = Some u \<longrightarrow> user_email u \<noteq> []"
  shows "admin_flag_ok (App_run events)"
  unfolding App_run_def
  by (rule foldl_flag_ok [OF assms]) (simp add: admin_flag_ok_def App_initial_def)

lemma admin_route_iff_flag:
  "app_user a \<noteq> None \<Longrightarrow> \<not> app_loading a
     \<Longrightarrow> (''/admin'' \<in> set (App_routes a)) = app_isAdmin a"
  by (auto simp add: App_routes_def)

text \<open>
  For a user with an email address the route follows the allow-list: after any
  sequence of authentication events, whenever the application shows its routes to a
  signed-in user who has an email address, the \<open>/admin\<close> route is among them if and
  only if the lower-cased address of that user is one of the two entries of the list.
\<close>

lemma admin_route_with_email:
  assumes "app_user (App_run events) = Some u"
    and "\<not> app_loading (App_run events)"
    and "user_email u \<noteq> []"
  shows "(''/admin'' \<in> set (App_routes (App_run events)))
           = (toLowerCase (user_email u) \<in> set adminEmails)"
proof -
  have "events \<noteq> []"
    using assms(1) by (auto simp add: App_run_def App_initial_def)
  then obtain earlier state where "events = earlier @ [state]"
    by (metis rev_exhaust)
  then have run: "App_run events = onAuthStateChanged state (App_run earlier)"
    by (simp add: App_run_def)
  with assms(1) have "as_user state = Some u"
    by (simp add: onAuthStateChanged_def)
  with run assms(3) have "app_isAdmin (App_run events) = isAdmin (user_email u)"
    by (simp add: onAuthStateChanged_def)
  moreover have "(''/admin'' \<in> set (App_routes (App_run events))) = app_isAdmin (App_run events)"
    using assms(1,2) by (simp add: admin_route_iff_flag)
  ultimately show ?thesis by (simp add: isAdmin_def)
qed

text \<open>
  The handler sets the flag only for a user with an email address. For a user without
  one the flag is the one left by the sign-in before.
\<close>

lemma admin_flag_kept_without_email:
  "as_user state = Some u \<Longrightarrow> user_email u = []
     \<Longrightarrow> app_isAdmin (onAuthStateChanged state a) = app_isAdmin a"
  by (simp add: onAuthStateChanged_def)

lemma after_admin_run:
  "App_run (after_admin (signed_in uid email)) =
     \<lparr>app_user = Some \<lparr>user_id = uid, user_email = email\<rparr>, app_loading = False,
      app_isAdmin = (if email \<noteq> [] then isAdmin email else True)\<rparr>"
  by (simp add: App_run_def App_initial_def after_admin_def onAuthStateChanged_def
      signed_in_def signed_out_def)
     (simp add: isAdmin_def toLowerCase_def toLowerChar_def adminEmails_def)

text \<open>
  C8 fails for a user without an email address. An administrator signs in and out, and
  a user whose email address is empty signs in: the address is not on the allow-list,
  and the application shows this user the \<open>/admin\<close> route, because the handler left
  the administrator's flag in place. The same user in a fresh application is not shown
  the route, and neither is a user with an address off the list who signs in after the
  administrator.
\<close>

theorem admin_route_kept_without_email:
  "app_user (App_run (after_admin (signed_in ''u7'' [])))
     = Some \<lparr>user_id = ''u7'', user_email = []\<rparr>
   \<and> \<not> app_loading (App_run (after_admin (signed_in ''u7'' [])))
   \<and> toLowerCase [] \<notin> set adminEmails
   \<and> ''/admin'' \<in> set (App_routes (App_run (after_admin (signed_in ''u7'' []))))
   \<and> ''/admin'' \<notin> set (App_routes (App_run [signed_in ''u7'' []]))
   \<and> ''/admin'' \<notin> set (App_routes (App_run (after_admin (signed_in ''u1'' ''reader@example.org''))))"
proof -
  have 1: "App_run [signed_in ''u7'' []] =
      \<lparr>app_user = Some \<lparr>user_id = ''u7'', user_email = []\<rparr>, app_loading = False,
       app_isAdmin = False\<rparr>"
    by (simp add: App_run_def App_initial_def onAuthStateChanged_def signed_in_def)
  have 2: "\<not> isAdmin ''reader@example.org''"
    by (simp add: isAdmin_def toLowerCase_def toLowerChar_def adminEmails_def)
  have 3: "toLowerCase [] \<notin> set adminEmails"
    by (simp add: toLowerCase_def adminEmails_def)
  show ?thesis
    unfolding after_admin_run 1
    using 2 3 by (simp add: App_routes_def)
qed


section \<open>The cart page keeps exactly the rows whose product was found\<close>

lemma lookup_succeeds_logged [simp]: "lookup_succeeds (logged c w) r = lookup_succeeds w r"
  by (simp add: lookup_succeeds_def)

lemma joined_logged [simp]: "joined (logged c w) = joined w"
  by (rule ext) (simp add: joined_def)



lemma item_fields_joined [simp]: "item_fields (joined w r) = row_fields r"
  by (simp add: joined_def item_fields_def row_fields_def join_row_def)

lemma ci_productId_joined [simp]: "ci_productId (joined w r) = c_product_id r"
  by (simp add: joined_def join_row_def)








section \<open>Order totals\<close>

lemma calculateSubtotal_foldl:
  "foldl (\<lambda>total item. total + item_price item * of_int (ci_quantity item)) a items
     = foldl (\<lambda>sum item. sum + line_total item) a items"
  by (induction items arbitrary: a)
     (simp_all add: line_total_def item_price_def split: option.splits)

lemma calculateSubtotal_eq: "calculateSubtotal items = cart_subtotal items"
  by (simp add: calculateSubtotal_def cart_subtotal_def calculateSubtotal_foldl)

text \<open>
  C9. On the cart page and on the checkout page, whatever the cart and whatever the
  applied discount (one of any amount, also one larger than the subtotal), the order
  total is the subtotal of the cart less the amount of the applied discount, or zero
  when that is negative; with no discount applied it is the subtotal, or zero. So the
  total is never negative.
\<close>

theorem calculateTotal_clamped:
  "Cart_calculateTotal items (Some applied) = max 0 (cart_subtotal items - ad_amount applied)
   \<and> Checkout_calculateTotal items (Some applied)
       = max 0 (cart_subtotal items - ad_amount applied)
   \<and> Cart_calculateTotal items None = max 0 (cart_subtotal items)
   \<and> Checkout_calculateTotal items None = max 0 (cart_subtotal items)
   \<and> 0 \<le> Cart_calculateTotal items appliedDiscount
   \<and> 0 \<le> Checkout_calculateTotal items appliedDiscount"
  by (simp add: Cart_calculateTotal_def Checkout_calculateTotal_def calculateSubtotal_eq
      discount_amount_def)

text \<open>
  Two lamps at 30 come to 60: a discount of 150 leaves a total of 0, one of 10 leaves 50.
\<close>

lemma calculateTotal_examples:
  "Cart_calculateTotal [lamp_line 2]
     (Some \<lparr>ad_code = ''BIG'', ad_amount = 150, ad_description = []\<rparr>) = 0"
  "Checkout_calculateTotal [lamp_line 2]
     (Some \<lparr>ad_code = ''SAVE10'', ad_amount = 10, ad_description = []\<rparr>) = 50"
  by (simp_all add: Cart_calculateTotal_def Checkout_calculateTotal_def calculateSubtotal_def
      discount_amount_def item_price_def lamp_line_def to_view_def lamp_def)


section \<open>Runs in which no request rejects, and runs that only read\<close>

lemma no_faults_logged [simp]: "no_faults (logged c w) = no_faults w"
  by (simp add: no_faults_def)

lemma db_read_ok: "no_faults w \<Longrightarrow> db_read c x w = (Some x, logged c w)"
  by (simp add: db_read_def no_faults_def)

lemma db_write_ok: "no_faults w \<Longrightarrow> db_write c f w = (True, f (logged c w))"
  by (simp add: db_write_def no_faults_def)

lemma auth_me_ok: "no_faults w \<Longrightarrow> auth_me w = (session w, logged Auth_me w)"
  by (simp add: auth_me_def no_faults_def)

lemma only_reads_refl [simp]: "only_reads w w"
  by (auto simp add: only_reads_def intro: exI [of _ "[]"])

lemma only_reads_trans: "only_reads w w1 \<Longrightarrow> only_reads w1 w2 \<Longrightarrow> only_reads w w2"
proof -
  assume "only_reads w w1" "only_reads w1 w2"
  then obtain cs ds where "list_all is_read cs" "w1 = w\<lparr>calls := calls w @ cs\<rparr>"
    "list_all is_read ds" "w2 = w1\<lparr>calls := calls w1 @ ds\<rparr>"
    unfolding only_reads_def by blast
  then have "list_all is_read (cs @ ds)" "w2 = w\<lparr>calls := calls w @ (cs @ ds)\<rparr>"
    by simp_all
  then show ?thesis unfolding only_reads_def by blast
qed

lemma only_reads_logged: "is_read c \<Longrightarrow> only_reads w (logged c w)"
  unfolding only_reads_def by (intro exI [of _ "[c]"]) (simp add: logged_def)

lemma only_reads_fields:
  assumes "only_reads w w'"
  shows "session w' = session w" "fault w' = fault w" "clock w' = clock w" "idgen w' = idgen w"
    "serial w' = serial w" "products w' = products w" "cartItems w' = cartItems w"
    "orders w' = orders w" "orderItems w' = orderItems w" "discountCodes w' = discountCodes w"
    "discountCodeUses w' = discountCodeUses w" "sellerEarnings w' = sellerEarnings w"
    "payoutRequests w' = payoutRequests w" "payoutItems w' = payoutItems w"
  using assms unfolding only_reads_def by auto

lemma db_read_reads: "is_read c \<Longrightarrow> only_reads w (snd (db_read c x w))"
  by (simp add: db_read_def only_reads_logged)

lemma auth_me_reads: "only_reads w (snd (auth_me w))"
  by (simp add: auth_me_def only_reads_logged)

lemma products_by_id_reads: "only_reads w (snd (products_by_id pid w))"
  by (simp add: products_by_id_def db_read_reads)


section \<open>The payout panel\<close>

lemma sum_net_foldl:
  "foldl (\<lambda>sum earning. sum + netEarnings earning) a es = a + sum_list (map netEarnings es)"
  by (induction es arbitrary: a) simp_all

lemma sum_net_sum_list: "sum_net es = sum_list (map netEarnings es)"
  by (simp add: sum_net_def sum_net_foldl)

lemma earnings_fetch_products_reads: "only_reads w (snd (earnings_fetch_products es w))"
proof (induction es arbitrary: w)
  case Nil
  then show ?case by simp
next
  case (Cons e es)
  have "only_reads w (snd (products_by_id (e_product_id e) w))"
    by (rule products_by_id_reads)
  moreover have "only_reads (snd (products_by_id (e_product_id e) w))
      (snd (earnings_fetch_products es (snd (products_by_id (e_product_id e) w))))"
    by (rule Cons.IH)
  ultimately show ?case
    by (simp add: case_prod_beta only_reads_trans)
qed

lemma loadEarnings_reads: "only_reads w (snd (loadEarnings st w))"
proof -
  let ?w1 = "snd (auth_me w)"
  have 1: "only_reads w ?w1" by (rule auth_me_reads)
  show ?thesis
  proof (cases "fst (auth_me w)")
    case None
    with 1 show ?thesis by (simp add: loadEarnings_def case_prod_beta)
  next
    case (Some u)
    let ?r = "db_read (Db_list SellerEarnings [user_id u])
                  (order_desc e_created_at
                     (filter (\<lambda>e. e_seller_id e = user_id u) (sellerEarnings ?w1))) ?w1"
    have 2: "only_reads w (snd ?r)"
      using 1 db_read_reads [of "Db_list SellerEarnings [user_id u]" ?w1] only_reads_trans
      by fastforce
    show ?thesis
    proof (cases "fst ?r")
      case None
      with Some 2 show ?thesis by (simp add: loadEarnings_def case_prod_beta)
    next
      case (Some earningsData)
      have 3: "only_reads w (snd (earnings_fetch_products earningsData (snd ?r)))"
        using 2 earnings_fetch_products_reads only_reads_trans by blast
      from \<open>fst (auth_me w) = Some u\<close> Some 3 show ?thesis
        by (simp add: loadEarnings_def case_prod_beta split: option.splits)
    qed
  qed
qed

lemma loadPayoutRequests_reads: "only_reads w (snd (loadPayoutRequests st w))"
proof -
  let ?w1 = "snd (auth_me w)"
  have 1: "only_reads w ?w1" by (rule auth_me_reads)
  show ?thesis
  proof (cases "fst (auth_me w)")
    case None
    with 1 show ?thesis by (simp add: loadPayoutRequests_def case_prod_beta)
  next
    case (Some u)
    let ?r = "db_read (Db_list PayoutRequests [user_id u])
                  (order_desc pr_requested_at
                     (filter (\<lambda>r. pr_seller_id r = user_id u) (payoutRequests ?w1))) ?w1"
    have 2: "only_reads w (snd ?r)"
      using 1 db_read_reads [of "Db_list PayoutRequests [user_id u]" ?w1] only_reads_trans
      by fastforce
    with Some show ?thesis
      by (simp add: loadPayoutRequests_def case_prod_beta split: option.splits)
  qed
qed

lemma reload_reads: "only_reads w (snd (reload st w))"
  unfolding reload_def case_prod_beta
  using loadEarnings_reads loadPayoutRequests_reads only_reads_trans by blast

text \<open>Both loaders leave the panel's balance equal to the sum over its available earnings.\<close>

lemma loadEarnings_consistent:
  "balance_consistent st \<Longrightarrow> balance_consistent (fst (loadEarnings st w))"
  by (simp add: loadEarnings_def balance_consistent_def auth_me_def db_read_def
      split: prod.splits option.splits)

lemma loadPayoutRequests_consistent:
  "balance_consistent st \<Longrightarrow> balance_consistent (fst (loadPayoutRequests st w))"
  by (simp add: loadPayoutRequests_def balance_consistent_def auth_me_def db_read_def
      split: prod.splits option.splits)

lemma empty_panel_consistent: "balance_consistent empty_panel"
  by (simp add: balance_consistent_def empty_panel_def sum_net_def)

lemma reload_consistent:
  "balance_consistent st \<Longrightarrow> balance_consistent (fst (reload st w))"
  by (simp add: reload_def case_prod_beta loadEarnings_consistent loadPayoutRequests_consistent)

lemma handlePayoutRequest_consistent:
  "balance_consistent st \<Longrightarrow> balance_consistent (fst (snd (handlePayoutRequest form st w)))"
  by (simp add: handlePayoutRequest_def case_prod_beta reload_consistent
      split: option.splits bool.splits)

lemma mark_pending_insert:
  "map (mark_pending ids)
     (map (\<lambda>e. if e_id e = eid then e\<lparr>e_status := ''pending_payout''\<rparr> else e) es)
     = map (mark_pending (insert eid ids)) es"
  by (induction es) (simp_all add: mark_pending_def)

lemma mark_pending_empty [simp]: "map (mark_pending {}) es = es"
  by (induction es) (simp_all add: mark_pending_def)

lemma floor_rat_numeral [simp]:
  "\<lfloor>(numeral a :: rat) / numeral b\<rfloor> = numeral a div numeral b"
  using floor_divide_of_int_eq [of "numeral a" "numeral b", where ?'a = rat] by simp

lemmas binary64 =
  double_of_def nearest_double_def exponent_def half_even_def bit_length.simps pow2_def Let_def

lemma double_of_zero [simp]: "double_of 0 = Finite 0"
  by (simp add: double_of_def nearest_double_def pow2_def)

text \<open>The rounding is the one of the machine: the doubles written 0.1, 0.7 and 0.8.\<close>

lemma nearest_double_tenths:
  "nearest_double (1 / 10) = tenth" "nearest_double (7 / 10) = seven_tenths"
  "nearest_double (8 / 10) = eight_tenths"
  by (simp_all add: binary64 tenth_def seven_tenths_def eight_tenths_def)

declare portions.simps(2) [simp del]

lemma portions_step:
  "portions (earning # rest) remaining =
     (case allocationAmount_of remaining (netEarnings earning) of
        None \<Rightarrow> []
      | Some a \<Rightarrow> (e_id (fst earning), a) # portions rest (double_minus remaining a))"
  by (cases remaining) (simp_all add: portions.simps allocationAmount_of_def double_minus_def)

lemma portions_done [simp]: "portions es (Finite 0) = []"
  by (cases es) (simp_all add: portions.simps)

lemma allocate_effect:
  assumes "no_faults w"
  shows "fst (allocate rid es remaining w)
       \<and> allocated rid es remaining w (snd (allocate rid es remaining w))"
  using assms
proof (induction es arbitrary: remaining w)
  case Nil
  then show ?case by (simp add: allocated_def)
next
  case (Cons earning rest)
  show ?case
  proof (cases "allocationAmount_of remaining (netEarnings earning)")
    case None
    then have "portions (earning # rest) remaining = []" by (simp add: portions_step)
    with None Cons.prems show ?thesis by (simp add: allocated_def)
  next
    case (Some m)
    let ?left = "double_minus remaining m"
    let ?iid = "''payoutitem_'' @ idgen w (serial w)"
    let ?item = "\<lparr>pi_id = ?iid, pi_payout_request_id = rid,
                   pi_seller_earning_id = e_id (fst earning), pi_amount = m\<rparr>"
    let ?w1 = "w\<lparr>serial := Suc (serial w)\<rparr>"
    let ?w2 = "(logged (Db_create PayoutItems ?iid) ?w1)\<lparr>payoutItems := payoutItems w @ [?item]\<rparr>"
    let ?w3 = "(logged (Db_update SellerEarnings (e_id (fst earning))) ?w2)
                 \<lparr>sellerEarnings := map (\<lambda>e. if e_id e = e_id (fst earning)
                      then e\<lparr>e_status := ''pending_payout''\<rparr> else e) (sellerEarnings w)\<rparr>"
    let ?w' = "snd (allocate rid rest ?left ?w3)"
    have po: "portions (earning # rest) remaining
        = (e_id (fst earning), m) # portions rest ?left"
      using Some by (simp add: portions_step)
    have nf1: "no_faults ?w1" using Cons.prems by (simp add: no_faults_def)
    have nf2: "no_faults ?w2" using Cons.prems by (simp add: no_faults_def)
    have nf3: "no_faults ?w3" using Cons.prems by (simp add: no_faults_def)
    have step: "allocate rid (earning # rest) remaining w = allocate rid rest ?left ?w3"
      using Some nf1 nf2
      by (simp add: new_id_def payoutItems_create_def sellerEarnings_update_status_def
          db_write_ok)
    from Cons.IH [OF nf3, of ?left]
    have ok: "fst (allocate rid rest ?left ?w3)"
      and al: "allocated rid rest ?left ?w3 ?w'"
      by simp_all
    from al obtain items where items:
      "payoutItems ?w' = payoutItems ?w3 @ items"
      "map item_portion items = portions rest ?left"
      "list_all (\<lambda>i. pi_payout_request_id i = rid) items"
      "sellerEarnings ?w'
         = map (mark_pending (fst ` set (portions rest ?left))) (sellerEarnings ?w3)"
      "payoutRequests ?w' = payoutRequests ?w3"
      "no_faults ?w'"
      "session ?w' = session ?w3"
      unfolding allocated_def by blast
    have "allocated rid (earning # rest) remaining w ?w'"
      unfolding allocated_def
    proof (intro exI [of _ "?item # items"] conjI)
      show "payoutItems ?w' = payoutItems w @ ?item # items"
        using items(1) by simp
      show "map item_portion (?item # items) = portions (earning # rest) remaining"
        using items(2) po by (simp add: item_portion_def)
      show "list_all (\<lambda>i. pi_payout_request_id i = rid) (?item # items)"
        using items(3) by simp
      show "sellerEarnings ?w'
          = map (mark_pending (fst ` set (portions (earning # rest) remaining))) (sellerEarnings w)"
      proof -
        have "sellerEarnings ?w3 = map (\<lambda>e. if e_id e = e_id (fst earning)
                      then e\<lparr>e_status := ''pending_payout''\<rparr> else e) (sellerEarnings w)"
          by simp
        with items(4) have "sellerEarnings ?w'
          = map (mark_pending (fst ` set (portions rest ?left)))
              (map (\<lambda>e. if e_id e = e_id (fst earning)
                      then e\<lparr>e_status := ''pending_payout''\<rparr> else e) (sellerEarnings w))"
          by (simp only:)
        also have "\<dots> = map (mark_pending (insert (e_id (fst earning))
              (fst ` set (portions rest ?left)))) (sellerEarnings w)"
          by (rule mark_pending_insert)
        finally show ?thesis using po by simp
      qed
      show "payoutRequests ?w' = payoutRequests w"
        using items(5) by simp
      show "no_faults ?w'" by (rule items(6))
      show "session ?w' = session w"
        using items(7) by simp
    qed
    with ok step show ?thesis by simp
  qed
qed

text \<open>The touched earnings are a prefix of the list walked.\<close>

lemma portions_ids_prefix:
  "map fst (portions es remaining)
     = take (length (portions es remaining)) (map (\<lambda>e. e_id (fst e)) es)"
  by (induction es arbitrary: remaining) (simp_all add: portions_step split: option.splits)

text \<open>
  Every earning touched but the last is taken whole: a step that takes the whole
  remainder leaves zero, and the walk ends there.
\<close>

lemma portions_whole:
  "map snd (butlast (portions es remaining))
     = map netEarnings (take (length (portions es remaining) - 1) es)"
proof (induction es arbitrary: remaining)
  case Nil
  then show ?case by simp
next
  case (Cons earning rest)
  show ?case
  proof (cases "allocationAmount_of remaining (netEarnings earning)")
    case None
    then show ?thesis by (simp add: portions_step)
  next
    case (Some m)
    let ?later = "portions rest (double_minus remaining m)"
    have po: "portions (earning # rest) remaining = (e_id (fst earning), m) # ?later"
      using Some by (simp add: portions_step)
    show ?thesis
    proof (cases "?later = []")
      case True
      with po show ?thesis by simp
    next
      case False
      have whole: "m = netEarnings earning"
      proof (rule ccontr)
        assume ne: "m \<noteq> netEarnings earning"
        with Some obtain r where "remaining = Finite r" "m = r"
          by (cases remaining) (auto simp add: allocationAmount_of_def min_def split: if_splits)
        then have "?later = []" by (simp add: double_minus_def)
        with False show False ..
      qed
      have "map snd (butlast ((e_id (fst earning), m) # ?later))
          = m # map snd (butlast ?later)"
        using False by simp
      also have "map snd (butlast ?later)
          = map netEarnings (take (length ?later - 1) rest)"
        by (rule Cons.IH)
      also have "m # map netEarnings (take (length ?later - 1) rest)
          = map netEarnings (take (length ((e_id (fst earning), m) # ?later) - 1) (earning # rest))"
        using False whole by (cases ?later) simp_all
      finally show ?thesis unfolding po .
    qed
  qed
qed

text \<open>What an accepted payout request does to the store.\<close>

lemma handlePayoutRequest_effect:
  assumes "no_faults w"
    and "session w = Some u"
    and "pf_amount form = Some amount"
    and "0 < amount"
    and "amount \<le> availableBalance (stats st)"
  shows "\<exists>st' w' request items.
           handlePayoutRequest form st w = (Payout_submitted, st', w')
         \<and> payoutRequests w' = payoutRequests w @ [request]
         \<and> pr_amount request = amount \<and> pr_seller_id request = user_id u
         \<and> payoutItems w' = payoutItems w @ items
         \<and> list_all (\<lambda>i. pi_payout_request_id i = pr_id request) items
         \<and> map item_portion items = portions (filter available (earnings st)) (Finite amount)
         \<and> sellerEarnings w'
             = map (mark_pending (set (map pi_seller_earning_id items))) (sellerEarnings w)"
proof -
  let ?avail = "filter available (earnings st)"
  let ?rid = "''payout_'' @ idgen w (serial w)"
  let ?request = "\<lparr>pr_id = ?rid, pr_seller_id = user_id u, pr_amount = amount,
      pr_status = ''pending'', pr_payment_method = pf_paymentMethod form,
      pr_payment_details = paymentDetails form, pr_notes = pf_notes form,
      pr_requested_at = clock w\<rparr>"
  let ?w3 = "(logged (Db_create PayoutRequests ?rid)
               ((logged Auth_me w)\<lparr>serial := Suc (serial w)\<rparr>))
               \<lparr>payoutRequests := payoutRequests w @ [?request]\<rparr>"
  have nf3: "no_faults ?w3" using assms(1) by (simp add: no_faults_def)
  have sub: "submit_payout form amount st w = allocate ?rid ?avail (Finite amount) ?w3"
    using assms(1,2)
    by (simp add: submit_payout_def auth_me_ok new_id_def db_write_ok no_faults_def)
  let ?w4 = "snd (allocate ?rid ?avail (Finite amount) ?w3)"
  from allocate_effect [OF nf3, of ?rid ?avail "Finite amount"]
  have ok: "fst (allocate ?rid ?avail (Finite amount) ?w3)"
    and al: "allocated ?rid ?avail (Finite amount) ?w3 ?w4" by simp_all
  from al obtain items where items:
    "payoutItems ?w4 = payoutItems ?w3 @ items"
    "map item_portion items = portions ?avail (Finite amount)"
    "list_all (\<lambda>i. pi_payout_request_id i = ?rid) items"
    "sellerEarnings ?w4
       = map (mark_pending (fst ` set (portions ?avail (Finite amount)))) (sellerEarnings ?w3)"
    "payoutRequests ?w4 = payoutRequests ?w3"
    unfolding allocated_def by blast
  let ?w5 = "snd (reload st ?w4)"
  have rd: "only_reads ?w4 ?w5" by (rule reload_reads)
  have run: "handlePayoutRequest form st w = (Payout_submitted, fst (reload st ?w4), ?w5)"
    using assms(3-5) ok sub
    by (simp add: handlePayoutRequest_def case_prod_beta)
  have ids: "map pi_seller_earning_id items = map fst (portions ?avail (Finite amount))"
    using items(2) [symmetric] by (simp add: item_portion_def o_def)
  show ?thesis
  proof (intro exI [of _ "fst (reload st ?w4)"] exI [of _ ?w5] exI [of _ ?request]
      exI [of _ items] conjI)
    show "handlePayoutRequest form st w = (Payout_submitted, fst (reload st ?w4), ?w5)"
      by (rule run)
    show "payoutRequests ?w5 = payoutRequests w @ [?request]"
      using only_reads_fields(13) [OF rd] items(5) by simp
    show "pr_amount ?request = amount" by simp
    show "pr_seller_id ?request = user_id u" by simp
    show "payoutItems ?w5 = payoutItems w @ items"
      using only_reads_fields(14) [OF rd] items(1) by simp
    show "list_all (\<lambda>i. pi_payout_request_id i = pr_id ?request) items"
      using items(3) by simp
    show "map item_portion items = portions ?avail (Finite amount)" by (rule items(2))
    show "sellerEarnings ?w5
        = map (mark_pending (set (map pi_seller_earning_id items))) (sellerEarnings w)"
      using only_reads_fields(12) [OF rd] items(4) ids by simp
  qed
qed

text \<open>The panel of the small shop: the earnings newest first, a balance of 65.\<close>

lemma panel_eq:
  "panel =
     \<lparr>earnings =
        [(earned ''e3'' 10 ''paid_out'' 3, Some lamp),
         (earned ''e2'' 25 ''available'' 2, Some lamp),
         (earned ''e1'' 40 ''available'' 1, Some lamp)],
      payoutRequests_state = [],
      stats = \<lparr>totalEarnings = 75, availableBalance = 65, pendingPayouts = 0,
               completedPayouts = 0\<rparr>\<rparr>"
  by (simp add: panel_def loadEarnings_def empty_panel_def shop_def auth_me_def db_read_def
      buyer_def order_desc_def earned_def products_by_id_def lamp_def desk_def sum_net_def
      netEarnings_def available_def)

lemma panel_available:
  "filter available (earnings panel)
     = [(earned ''e2'' 25 ''available'' 2, Some lamp),
        (earned ''e1'' 40 ''available'' 1, Some lamp)]"
  by (simp add: panel_eq available_def earned_def)


lemma shop_no_faults: "no_faults shop"
  by (simp add: no_faults_def shop_def)


section \<open>Payout requests\<close>

text \<open>The panel of the shop with the small earnings: newest first, a balance above 0.8.\<close>

lemma pence_panel_earnings:
  "earnings pence_panel =
     [(earned ''e6'' tenth ''available'' 6, Some lamp),
      (earned ''e5'' seven_tenths ''available'' 5, Some lamp),
      (earned ''e4'' 5 ''available'' 4, Some lamp)]"
  by (simp add: pence_panel_def loadEarnings_def empty_panel_def shop_pence_def shop_def
      auth_me_def db_read_def buyer_def order_desc_def earned_def products_by_id_def lamp_def
      desk_def)

lemma pence_panel_available:
  "filter available (earnings pence_panel)
     = [(earned ''e6'' tenth ''available'' 6, Some lamp),
        (earned ''e5'' seven_tenths ''available'' 5, Some lamp),
        (earned ''e4'' 5 ''available'' 4, Some lamp)]"
  by (simp add: pence_panel_earnings available_def earned_def)

lemma pence_panel_balance: "eight_tenths \<le> availableBalance (stats pence_panel)"
proof -
  have "balance_consistent pence_panel"
    unfolding pence_panel_def by (rule loadEarnings_consistent) (rule empty_panel_consistent)
  then have "availableBalance (stats pence_panel) = tenth + seven_tenths + 5"
    by (simp add: balance_consistent_def pence_panel_available sum_net_def netEarnings_def
        earned_def)
  then show ?thesis
    by (simp add: tenth_def seven_tenths_def eight_tenths_def)
qed

text \<open>
  The walk over 0.1, 0.7 and 5 for a request of 0.8: \<open>0.8 - 0.1\<close> is rounded to
  0.7000000000000001, which leaves \<open>2 ^ (- 53)\<close> after 0.7 is taken.
\<close>

lemma pence_portions:
  "portions (filter available (earnings pence_panel)) (Finite eight_tenths)
     = [(''e6'', tenth), (''e5'', seven_tenths), (''e4'', 1 / 9007199254740992)]"
  by (simp add: pence_panel_available portions.simps netEarnings_def earned_def binary64
      tenth_def seven_tenths_def eight_tenths_def)

text \<open>
  C3, as the code has it. Let a payout be requested for a positive amount that is at
  most the balance the panel shows (which \<open>loadEarnings\<close> computes as the sum of the net
  earnings over the available earnings), with no request rejecting. Then the submission
  succeeds and creates exactly one payout request, for that amount and seller, and one
  payout item per earning touched, all pointing to the request. The earnings touched are
  a prefix of the panel's available earnings in the order the panel lists them, which is
  the order of \<open>loadEarnings\<close>: by descending creation time, newest first. Each item
  takes the smaller of what remained and the earning's net amount, where what remains
  after an item is the difference as the doubles of the code round it, and the walk goes
  on as long as the remainder is positive; so every earning touched but the last is
  taken whole. Exactly the earnings touched are set to \<open>pending_payout\<close>.
\<close>

theorem handlePayoutRequest_allocates_in_listed_order:
  assumes "no_faults w"
    and "session w = Some u"
    and "pf_amount form = Some amount"
    and "0 < amount"
    and "amount \<le> availableBalance (stats st)"
  shows "\<exists>st' w' request items.
           handlePayoutRequest form st w = (Payout_submitted, st', w')
         \<and> payoutRequests w' = payoutRequests w @ [request]
         \<and> pr_amount request = amount \<and> pr_seller_id request = user_id u
         \<and> payoutItems w' = payoutItems w @ items
         \<and> list_all (\<lambda>i. pi_payout_request_id i = pr_id request) items
         \<and> map pi_seller_earning_id items
             = take (length items) (map (\<lambda>e. e_id (fst e)) (filter available (earnings st)))
         \<and> map item_portion items = portions (filter available (earnings st)) (Finite amount)
         \<and> map pi_amount (butlast items)
             = map netEarnings (take (length items - 1) (filter available (earnings st)))
         \<and> sellerEarnings w'
             = map (mark_pending (set (map pi_seller_earning_id items))) (sellerEarnings w)"
proof -
  let ?avail = "filter available (earnings st)"
  from handlePayoutRequest_effect [OF assms]
  obtain st' w' request items where r:
    "handlePayoutRequest form st w = (Payout_submitted, st', w')"
    "payoutRequests w' = payoutRequests w @ [request]"
    "pr_amount request = amount" "pr_seller_id request = user_id u"
    "payoutItems w' = payoutItems w @ items"
    "list_all (\<lambda>i. pi_payout_request_id i = pr_id request) items"
    "map item_portion items = portions ?avail (Finite amount)"
    "sellerEarnings w'
       = map (mark_pending (set (map pi_seller_earning_id items))) (sellerEarnings w)"
    by blast
  have ids: "map pi_seller_earning_id items = map fst (portions ?avail (Finite amount))"
    using r(7) [symmetric] by (simp add: item_portion_def o_def)
  have amounts: "map pi_amount items = map snd (portions ?avail (Finite amount))"
    using r(7) [symmetric] by (simp add: item_portion_def o_def)
  have len: "length items = length (portions ?avail (Finite amount))"
    using r(7) [symmetric] by simp
  have prefix: "map pi_seller_earning_id items
        = take (length items) (map (\<lambda>e. e_id (fst e)) ?avail)"
    using portions_ids_prefix [of ?avail "Finite amount"] ids len by simp
  have "map pi_amount (butlast items) = butlast (map pi_amount items)"
    by (simp add: map_butlast)
  also have "\<dots> = map snd (butlast (portions ?avail (Finite amount)))"
    by (simp add: amounts map_butlast)
  also have "\<dots> = map netEarnings (take (length items - 1) ?avail)"
    unfolding len by (rule portions_whole)
  finally have whole: "map pi_amount (butlast items)
      = map netEarnings (take (length items - 1) ?avail)" .
  from r prefix whole show ?thesis by blast
qed

text \<open>
  In the small shop a request for 30 takes 25 from the newer earning \<open>e2\<close> and 5 from
  the older \<open>e1\<close>, and both become pending.
\<close>

lemma panel_portions:
  "portions (filter available (earnings panel)) (Finite 30) = [(''e2'', 25), (''e1'', 5)]"
  "portions (filter available (earnings panel)) (Finite 20) = [(''e2'', 20)]"
  by (simp_all add: panel_available portions.simps netEarnings_def earned_def binary64)

theorem handlePayoutRequest_allocates_in_listed_order_witness:
  "\<exists>st' w' request.
      handlePayoutRequest (payout_form_of (Some 30)) panel shop = (Payout_submitted, st', w')
    \<and> payoutRequests w' = [request] \<and> pr_amount request = 30
    \<and> map item_portion (payoutItems w') = [(''e2'', 25), (''e1'', 5)]
    \<and> map e_status (sellerEarnings w') = [''pending_payout'', ''pending_payout'', ''paid_out'']"
proof -
  have se: "session shop = Some buyer" by (simp add: shop_def)
  have am: "pf_amount (payout_form_of (Some 30)) = Some 30" by (simp add: payout_form_of_def)
  have le: "(30::rat) \<le> availableBalance (stats panel)" by (simp add: panel_eq)
  note po = panel_portions(1)
  from handlePayoutRequest_allocates_in_listed_order
    [OF shop_no_faults se am _ le]
  obtain st' w' request items where r:
    "handlePayoutRequest (payout_form_of (Some 30)) panel shop = (Payout_submitted, st', w')"
    "payoutRequests w' = payoutRequests shop @ [request]"
    "pr_amount request = 30"
    "payoutItems w' = payoutItems shop @ items"
    "map item_portion items = portions (filter available (earnings panel)) (Finite 30)"
    "sellerEarnings w'
       = map (mark_pending (set (map pi_seller_earning_id items))) (sellerEarnings shop)"
    by auto
  have ids: "map pi_seller_earning_id items = [''e2'', ''e1'']"
    using r(5) po by (auto simp add: item_portion_def)
  have "payoutRequests w' = [request]" using r(2) by (simp add: shop_def)
  moreover have "map item_portion (payoutItems w') = [(''e2'', 25), (''e1'', 5)]"
    using r(4,5) po by (simp add: shop_def)
  moreover have "map e_status (sellerEarnings w')
      = [''pending_payout'', ''pending_payout'', ''paid_out'']"
    using r(6) ids by (simp add: shop_def mark_pending_def earned_def)
  ultimately show ?thesis using r(1,3) by (intro exI conjI)
qed

text \<open>
  C3 as stated fails in three places. The available earnings of the small shop are
  \<open>e1\<close>, created at time 1, and \<open>e2\<close>, created at time 2. A request for 20, within
  the balance of 65, is taken from \<open>e2\<close> alone, and the oldest earning \<open>e1\<close> stays
  available: the walk is first-listed first, and the list is newest first. A request for
  0, also within the balance, is turned down and creates nothing. And where the
  available earnings are 0.1, 0.7 and 5, a request for 0.8 takes 0.1, 0.7 and a further
  \<open>2 ^ (- 53)\<close> from the third earning: the loop's remainder is a rounded difference, the
  amounts taken add up to more than the amount requested, and what was still to cover
  after the first two was \<open>3 / 2 ^ 55\<close>.
\<close>

theorem handlePayoutRequest_oldest_first_counterexample:
  "map e_created_at (sellerEarnings shop) = [1, 2, 3]
   \<and> map e_status (sellerEarnings shop) = [''available'', ''available'', ''paid_out'']
   \<and> map pi_seller_earning_id
        (payoutItems (snd (snd (handlePayoutRequest (payout_form_of (Some 20)) panel shop))))
       = [''e2'']
   \<and> map e_status
        (sellerEarnings (snd (snd (handlePayoutRequest (payout_form_of (Some 20)) panel shop))))
       = [''available'', ''pending_payout'', ''paid_out'']
   \<and> 0 \<le> availableBalance (stats panel)
   \<and> handlePayoutRequest (payout_form_of (Some 0)) panel shop = (Invalid_amount, panel, shop)
   \<and> eight_tenths \<le> availableBalance (stats pence_panel)
   \<and> map item_portion
        (payoutItems (snd (snd (handlePayoutRequest (payout_form_of (Some eight_tenths))
           pence_panel shop_pence))))
       = [(''e6'', tenth), (''e5'', seven_tenths), (''e4'', 1 / 9007199254740992)]
   \<and> map e_status
        (sellerEarnings (snd (snd (handlePayoutRequest (payout_form_of (Some eight_tenths))
           pence_panel shop_pence))))
       = [''pending_payout'', ''pending_payout'', ''pending_payout'']
   \<and> eight_tenths < tenth + seven_tenths + 1 / 9007199254740992
   \<and> eight_tenths - tenth - seven_tenths = 3 / 36028797018963968"
proof -
  have se: "session shop = Some buyer" by (simp add: shop_def)
  have am: "pf_amount (payout_form_of (Some 20)) = Some 20" by (simp add: payout_form_of_def)
  have le: "(20::rat) \<le> availableBalance (stats panel)" by (simp add: panel_eq)
  note po = panel_portions(2)
  from handlePayoutRequest_effect [OF shop_no_faults se am _ le]
  obtain st' w' request items where r:
    "handlePayoutRequest (payout_form_of (Some 20)) panel shop = (Payout_submitted, st', w')"
    "payoutItems w' = payoutItems shop @ items"
    "map item_portion items = portions (filter available (earnings panel)) (Finite 20)"
    "sellerEarnings w'
       = map (mark_pending (set (map pi_seller_earning_id items))) (sellerEarnings shop)"
    by auto
  have ids: "map pi_seller_earning_id items = [''e2'']"
    using r(3) po by (auto simp add: item_portion_def)
  have 1: "map pi_seller_earning_id (payoutItems w') = [''e2'']"
    using r(2) ids by (simp add: shop_def)
  have 2: "map e_status (sellerEarnings w') = [''available'', ''pending_payout'', ''paid_out'']"
    using r(4) ids by (simp add: shop_def mark_pending_def earned_def)
  have 3: "handlePayoutRequest (payout_form_of (Some 0)) panel shop = (Invalid_amount, panel, shop)"
    by (simp add: handlePayoutRequest_def payout_form_of_def)
  have 4: "0 \<le> availableBalance (stats panel)" by (simp add: panel_eq)
  have 5: "map e_created_at (sellerEarnings shop) = [1, 2, 3]"
    "map e_status (sellerEarnings shop) = [''available'', ''available'', ''paid_out'']"
    by (simp_all add: shop_def earned_def)
  have nf: "no_faults shop_pence" by (simp add: no_faults_def shop_pence_def shop_def)
  have se': "session shop_pence = Some buyer" by (simp add: shop_pence_def shop_def)
  have am': "pf_amount (payout_form_of (Some eight_tenths)) = Some eight_tenths"
    by (simp add: payout_form_of_def)
  have pos: "0 < eight_tenths" by (simp add: eight_tenths_def)
  from handlePayoutRequest_effect [OF nf se' am' pos pence_panel_balance]
  obtain st'' w'' request' items' where q:
    "handlePayoutRequest (payout_form_of (Some eight_tenths)) pence_panel shop_pence
       = (Payout_submitted, st'', w'')"
    "payoutItems w'' = payoutItems shop_pence @ items'"
    "map item_portion items'
       = portions (filter available (earnings pence_panel)) (Finite eight_tenths)"
    "sellerEarnings w''
       = map (mark_pending (set (map pi_seller_earning_id items'))) (sellerEarnings shop_pence)"
    by auto
  have ids': "map pi_seller_earning_id items' = [''e6'', ''e5'', ''e4'']"
    using q(3) pence_portions by (auto simp add: item_portion_def)
  have 8: "map e_status (sellerEarnings w'')
      = [''pending_payout'', ''pending_payout'', ''pending_payout'']"
    using q(4) ids' by (simp add: shop_pence_def shop_def mark_pending_def earned_def)
  have 6: "map item_portion (payoutItems w'')
      = [(''e6'', tenth), (''e5'', seven_tenths), (''e4'', 1 / 9007199254740992)]"
    using q(2,3) pence_portions by (simp add: shop_pence_def shop_def)
  have 7: "eight_tenths < tenth + seven_tenths + 1 / 9007199254740992"
    "eight_tenths - tenth - seven_tenths = 3 / 36028797018963968"
    by (simp_all add: tenth_def seven_tenths_def eight_tenths_def)
  from 1 2 3 4 5 6 7 8 r(1) q(1) pence_panel_balance show ?thesis by simp
qed




section \<open>The discount widget decides\<close>

lemma calculate_discount_capped: "calculate_discount d subtotal = capped_discount d subtotal"
  by (cases "d_discount_type d") (simp_all add: calculate_discount_def capped_discount_def min.commute)

lemma take1_filter_uses:
  "(take 1 (filter (\<lambda>x. du_discount_code_id x = d_id d \<and> du_user_id x = user_id u)
      (discountCodeUses w)) = []) = (\<not> used_by w u d)"
  by (simp add: used_by_def list_ex_iff filter_empty_conv)

text \<open>The widget's verdict with a responsive backend, branch by branch.\<close>

lemma validateAndApplyDiscount_verdict:
  assumes "no_faults w" and "session w = Some u"
  shows "fst (validateAndApplyDiscount code subtotal w) =
     (if trim_empty code then Please_enter_code
      else case first_active_match (toUpperCase code) w of
             None \<Rightarrow> Invalid_code
           | Some discountCode \<Rightarrow>
               if expired discountCode (clock w) then Expired_code
               else if exhausted discountCode then Code_limit_reached
               else if subtotal < d_minimum_order_amount discountCode then Minimum_order_not_met
               else if used_by w u discountCode then Already_used
               else Discount_applied
                      \<lparr>ad_code = d_code discountCode,
                       ad_amount = capped_discount discountCode subtotal,
                       ad_description = d_description discountCode\<rparr>)"
proof (cases "trim_empty code")
  case True
  then show ?thesis by (simp add: validateAndApplyDiscount_def)
next
  case False
  let ?found = "filter (\<lambda>d. d_code d = toUpperCase code \<and> d_is_active d) (discountCodes w)"
  show ?thesis
  proof (cases ?found)
    case Nil
    with False assms show ?thesis
      by (simp add: validateAndApplyDiscount_def auth_me_ok active_codes_def db_read_ok
          first_active_match_def)
  next
    case (Cons d rest)
    let ?w2 = "logged (Db_list DiscountCodes [toUpperCase code, ''1'']) (logged Auth_me w)"
    have nf2: "no_faults ?w2" using assms(1) by simp
    have uses: "existing_uses (d_id d) (user_id u) ?w2 =
        (Some (take 1 (filter (\<lambda>x. du_discount_code_id x = d_id d \<and> du_user_id x = user_id u)
           (discountCodeUses w))), logged (Db_list DiscountCodeUses [d_id d, user_id u]) ?w2)"
      using nf2 by (simp add: existing_uses_def db_read_ok)
    show ?thesis
    proof (cases "used_by w u d")
      case True
      then obtain x xs where "take 1 (filter (\<lambda>x. du_discount_code_id x = d_id d \<and> du_user_id x = user_id u)
           (discountCodeUses w)) = x # xs"
        using take1_filter_uses [of d u w] by (meson list.exhaust)
      with False assms Cons uses True show ?thesis
        by (simp add: validateAndApplyDiscount_def auth_me_ok active_codes_def db_read_ok
          first_active_match_def)
    next
      case no: False
      then have "take 1 (filter (\<lambda>x. du_discount_code_id x = d_id d \<and> du_user_id x = user_id u)
           (discountCodeUses w)) = []"
        using take1_filter_uses [of d u w] by simp
      with False assms Cons uses no show ?thesis
        by (simp add: validateAndApplyDiscount_def auth_me_ok active_codes_def db_read_ok
          first_active_match_def calculate_discount_capped)
    qed
  qed
qed

text \<open>
  C1, as the code has it. With a signed-in user and a responsive backend, the widget
  accepts an entry for a subtotal if and only if the entry is not blank and the record
  the lookup returns (the first active record whose code is the upper-cased entry) is
  usable by the user for the subtotal. When it accepts, the discount applied is
  \<open>min(subtotal, discountValue)\<close> for a fixed code and
  \<open>min(subtotal, subtotal * discountValue / 100)\<close> for a percentage code of that record.
\<close>

theorem validateAndApplyDiscount_accepts_iff:
  assumes "no_faults w" and "session w = Some u"
  shows "accepted (fst (validateAndApplyDiscount code subtotal w))
           = (\<not> trim_empty code
              \<and> (\<exists>discountCode. first_active_match (toUpperCase code) w = Some discountCode
                     \<and> usable_by w u subtotal discountCode))
       \<and> (\<forall>applied. fst (validateAndApplyDiscount code subtotal w) = Discount_applied applied
            \<longrightarrow> (\<exists>discountCode. first_active_match (toUpperCase code) w = Some discountCode
                    \<and> ad_code applied = d_code discountCode
                    \<and> ad_amount applied = capped_discount discountCode subtotal))"
  unfolding validateAndApplyDiscount_verdict [OF assms]
  by (auto simp add: accepted_def usable_by_def split: option.splits)

lemma toUpperCase_save10: "toUpperCase ''save10'' = ''SAVE10''"
  by (simp add: toUpperCase_def toUpperChar_def)

text \<open>
  In the small shop \<open>save10\<close> takes 10 off a subtotal of 100, a fixed code of 150 takes
  the whole 100, and a subtotal of 40 is below the minimum.
\<close>

theorem validateAndApplyDiscount_accepts_iff_witness:
  "(\<exists>applied. fst (validateAndApplyDiscount ''save10'' 100 shop) = Discount_applied applied
       \<and> ad_code applied = ''SAVE10'' \<and> ad_amount applied = 10)
   \<and> (\<exists>applied. fst (validateAndApplyDiscount ''save10'' 100 shop_fixed) = Discount_applied applied
       \<and> ad_amount applied = 100)
   \<and> \<not> accepted (fst (validateAndApplyDiscount ''save10'' 40 shop))"
proof -
  have se: "session shop = Some buyer" "session shop_fixed = Some buyer"
    by (simp_all add: shop_def shop_fixed_def)
  have nf: "no_faults shop_fixed" by (simp add: no_faults_def shop_fixed_def shop_def)
  have m1: "first_active_match ''SAVE10'' shop = Some save10"
    by (simp add: first_active_match_def shop_def save10_def)
  have m2: "first_active_match ''SAVE10'' shop_fixed
      = Some (save10\<lparr>d_discount_type := Fixed, d_discount_value := 150\<rparr>)"
    by (simp add: first_active_match_def shop_fixed_def shop_def save10_def)
  have u1: "usable_by shop buyer 100 save10" "\<not> usable_by shop buyer 40 save10"
    by (simp_all add: usable_by_def expired_def exhausted_def used_by_def shop_def save10_def
        or_else_def)
  have u2: "usable_by shop_fixed buyer 100 (save10\<lparr>d_discount_type := Fixed, d_discount_value := 150\<rparr>)"
    by (simp add: usable_by_def expired_def exhausted_def used_by_def shop_fixed_def shop_def
        save10_def or_else_def)
  have nb: "\<not> trim_empty ''save10''" by (simp add: trim_empty_def whiteSpace_def)
  note t1 = validateAndApplyDiscount_accepts_iff [OF shop_no_faults se(1), of "''save10''" 100]
  note t2 = validateAndApplyDiscount_accepts_iff [OF nf se(2), of "''save10''" 100]
  note t3 = validateAndApplyDiscount_accepts_iff [OF shop_no_faults se(1), of "''save10''" 40]
  have a1: "accepted (fst (validateAndApplyDiscount ''save10'' 100 shop))"
    using t1 m1 u1(1) nb by (simp add: toUpperCase_save10)
  then obtain applied1 where
    p1: "fst (validateAndApplyDiscount ''save10'' 100 shop) = Discount_applied applied1"
    by (auto simp add: accepted_def split: discount_outcome.splits)
  with t1 m1 have "ad_code applied1 = ''SAVE10''" "ad_amount applied1 = 10"
    by (simp_all add: toUpperCase_save10 capped_discount_def save10_def)
  with p1 have c1: "\<exists>applied. fst (validateAndApplyDiscount ''save10'' 100 shop) = Discount_applied applied
       \<and> ad_code applied = ''SAVE10'' \<and> ad_amount applied = 10"
    by (intro exI conjI)
  have a2: "accepted (fst (validateAndApplyDiscount ''save10'' 100 shop_fixed))"
    using t2 m2 u2 nb by (simp add: toUpperCase_save10)
  then obtain applied2 where
    p2: "fst (validateAndApplyDiscount ''save10'' 100 shop_fixed) = Discount_applied applied2"
    by (auto simp add: accepted_def split: discount_outcome.splits)
  with t2 m2 have "ad_amount applied2 = 100"
    by (simp add: toUpperCase_save10 capped_discount_def save10_def)
  with p2 have c2: "\<exists>applied. fst (validateAndApplyDiscount ''save10'' 100 shop_fixed) = Discount_applied applied
       \<and> ad_amount applied = 100"
    by (intro exI conjI)
  have c3: "\<not> accepted (fst (validateAndApplyDiscount ''save10'' 40 shop))"
    using t3 m1 u1(2) by (simp add: toUpperCase_save10)
  from c1 c2 c3 show ?thesis by (intro conjI)
qed

text \<open>
  C1 as stated fails in two places. Where two active records carry the code and the
  first is used up, a usable matching record exists and the widget answers that the
  limit is reached: only the one record fetched is examined. And a blank entry is turned
  down before any lookup, also when a record with that very code is active and usable.
\<close>

theorem validateAndApplyDiscount_some_code_counterexample:
  "some_code_usable shop_twice buyer ''save10'' 100
   \<and> fst (validateAndApplyDiscount ''save10'' 100 shop_twice) = Code_limit_reached
   \<and> some_code_usable shop_blank buyer '' '' 100
   \<and> fst (validateAndApplyDiscount '' '' 100 shop_blank) = Please_enter_code"
proof -
  have se: "session shop_twice = Some buyer"
    by (simp add: shop_twice_def shop_def)
  have nf: "no_faults shop_twice" by (simp add: no_faults_def shop_twice_def shop_def)
  have 1: "some_code_usable shop_twice buyer ''save10'' 100"
    by (simp add: some_code_usable_def toUpperCase_save10 shop_twice_def shop_def save10_def
        usable_by_def expired_def exhausted_def used_by_def or_else_def)
  have m: "first_active_match ''SAVE10'' shop_twice = Some (save10\<lparr>d_id := ''d0'', d_max_uses := Some 3\<rparr>)"
    by (simp add: first_active_match_def shop_twice_def shop_def save10_def)
  have 2: "fst (validateAndApplyDiscount ''save10'' 100 shop_twice) = Code_limit_reached"
    unfolding validateAndApplyDiscount_verdict [OF nf se]
    by (simp add: toUpperCase_save10 m trim_empty_def whiteSpace_def)
       (simp add: expired_def exhausted_def save10_def shop_twice_def shop_def or_else_def)
  have 3: "some_code_usable shop_blank buyer '' '' 100"
    by (simp add: some_code_usable_def toUpperCase_def toUpperChar_def shop_blank_def shop_def
        save10_def usable_by_def expired_def exhausted_def used_by_def or_else_def)
  have 4: "fst (validateAndApplyDiscount '' '' 100 shop_blank) = Please_enter_code"
    by (simp add: validateAndApplyDiscount_def trim_empty_def whiteSpace_def)
  from 1 2 3 4 show ?thesis by (intro conjI)
qed

section \<open>Validation failures\<close>

lemma only_reads_after:
  assumes "is_read c" and "only_reads (logged c w) w'"
  shows "only_reads w w' \<and> calls w' \<noteq> calls w"
proof -
  from assms(2) obtain cs where cs: "list_all is_read cs"
      "w' = (logged c w)\<lparr>calls := calls (logged c w) @ cs\<rparr>"
    unfolding only_reads_def by blast
  have "only_reads w w'"
    using assms only_reads_logged only_reads_trans by blast
  moreover have "calls w' = calls w @ c # cs" using cs(2) by simp
  ultimately show ?thesis by simp
qed

lemma active_codes_reads: "only_reads w (snd (active_codes code w))"
  by (simp add: active_codes_def db_read_reads)

lemma existing_uses_reads: "only_reads w (snd (existing_uses did uid w))"
  by (simp add: existing_uses_def db_read_reads)

lemma auth_me_snd [simp]: "snd (auth_me w) = logged Auth_me w"
  by (simp add: auth_me_def)

lemma validateAndApplyDiscount_reads_after_auth:
  assumes "\<not> trim_empty code"
  shows "only_reads (logged Auth_me w) (snd (validateAndApplyDiscount code subtotal w))"
proof -
  let ?w1 = "logged Auth_me w"
  let ?w2 = "snd (active_codes (toUpperCase code) ?w1)"
  have 2: "only_reads ?w1 ?w2" by (rule active_codes_reads)
  have 3: "\<And>did uid. only_reads ?w1 (snd (existing_uses did uid ?w2))"
    using 2 existing_uses_reads only_reads_trans by blast
  show ?thesis
    using assms 2 3
    by (auto simp add: validateAndApplyDiscount_def case_prod_beta
          split: option.splits list.splits)
qed

lemma validate_stock_reads: "only_reads w (snd (validate_stock items w))"
proof (induction items arbitrary: w)
  case Nil
  then show ?case by simp
next
  case (Cons item items)
  show ?case
  proof (cases "ci_product item")
    case None
    with Cons.IH [of w] show ?thesis by (simp add: case_prod_beta)
  next
    case (Some product)
    let ?w1 = "snd (products_by_id (ci_productId item) w)"
    have 1: "only_reads w ?w1" by (rule products_by_id_reads)
    have 2: "only_reads w (snd (validate_stock items ?w1))"
      using 1 Cons.IH [of ?w1] only_reads_trans by blast
    from Some 1 2 show ?thesis
      by (auto simp add: case_prod_beta split: option.splits)
  qed
qed

lemma handleSubmit_stock_failure_reads:
  assumes "fst (handleSubmit formData items appliedDiscount w) = Stock_validation_failed errors"
  shows "only_reads (logged Auth_me w) (snd (handleSubmit formData items appliedDiscount w))"
proof -
  let ?w1 = "logged Auth_me w"
  have v: "only_reads ?w1 (snd (validate_stock items ?w1))" by (rule validate_stock_reads)
  from assms v show ?thesis
    by (auto simp add: handleSubmit_def case_prod_beta
          split: if_splits option.splits bool.splits)
qed

lemma passes_logged [simp]: "passes (logged c w) item = passes w item"
  by (simp add: passes_def split: option.splits)

text \<open>
  When every fetch of the validation loop is answered, the list of messages is empty
  exactly when every line item passes.
\<close>

lemma validate_stock_verdict:
  "fst (validate_stock items w) = Some errors \<Longrightarrow> (errors = []) = list_all (passes w) items"
proof (induction items arbitrary: w errors)
  case Nil
  then show ?case by simp
next
  case (Cons item items)
  show ?case
  proof (cases "ci_product item")
    case None
    with Cons.prems obtain rest where "errors = Product_not_found # rest"
      by (auto simp add: case_prod_beta)
    with None show ?thesis by (simp add: passes_def)
  next
    case (Some product)
    let ?w1 = "logged (Db_list Products [ci_productId item]) w"
    let ?found = "filter (\<lambda>p. p_id p = ci_productId item) (products w)"
    from Cons.prems Some have answered: "\<not> fault w (Db_list Products [ci_productId item])"
      by (auto simp add: products_by_id_eq case_prod_beta split: if_splits)
    with Cons.prems Some obtain rest where rest:
      "fst (validate_stock items ?w1) = Some rest"
      "errors = stock_errors_of item product (take 1 ?found) @ rest"
      by (auto simp add: products_by_id_eq case_prod_beta)
    from Cons.IH [OF rest(1)] have ih: "(rest = []) = list_all (passes w) items"
      by (simp add: list_all_iff)
    have "(stock_errors_of item product (take 1 ?found) = []) = passes w item"
      using Some
      by (cases ?found) (simp_all add: stock_errors_of_def passes_def stock_of_def Let_def)
    with rest(2) ih show ?thesis by simp
  qed
qed

lemma validate_stock_answers:
  "no_faults w \<Longrightarrow> \<exists>errors. fst (validate_stock items w) = Some errors"
proof (induction items arbitrary: w)
  case Nil
  then show ?case by simp
next
  case (Cons item items)
  let ?w1 = "logged (Db_list Products [ci_productId item]) w"
  from Cons.prems have nf1: "no_faults ?w1" by simp
  from Cons.IH [OF Cons.prems] Cons.IH [OF nf1] Cons.prems show ?case
    by (cases "ci_product item")
       (auto simp add: products_by_id_eq case_prod_beta no_faults_def)
qed

text \<open>
  A checkout with a line item that does not pass ends in the stock failure, or in the
  general failure when a request rejected; it never reaches the writes.
\<close>

lemma handleSubmit_short_of_stock:
  assumes "f_firstName formData \<noteq> []" and "f_lastName formData \<noteq> []"
    and "f_email formData \<noteq> []" and "f_address formData \<noteq> []"
    and "\<not> list_all (passes w) items"
  shows "fst (handleSubmit formData items appliedDiscount w) = Order_failed
       \<or> (\<exists>errors. errors \<noteq> []
            \<and> fst (handleSubmit formData items appliedDiscount w) = Stock_validation_failed errors)"
    and "only_reads (logged Auth_me w) (snd (handleSubmit formData items appliedDiscount w))"
proof -
  let ?w1 = "logged Auth_me w"
  let ?v = "validate_stock items ?w1"
  have reads: "only_reads ?w1 (snd ?v)" by (rule validate_stock_reads)
  have verdict: "\<And>errors. fst ?v = Some errors \<Longrightarrow> errors \<noteq> []"
  proof
    fix errors assume "fst ?v = Some errors" "errors = []"
    with validate_stock_verdict [of items ?w1 errors] have "list_all (passes ?w1) items"
      by simp
    with assms(5) show False by (simp add: list_all_iff)
  qed
  show "fst (handleSubmit formData items appliedDiscount w) = Order_failed
       \<or> (\<exists>errors. errors \<noteq> []
            \<and> fst (handleSubmit formData items appliedDiscount w) = Stock_validation_failed errors)"
    using assms(1-4) verdict
    by (cases "fst (auth_me w)"; cases "fst ?v")
       (simp_all add: handleSubmit_def case_prod_beta)
  show "only_reads (logged Auth_me w) (snd (handleSubmit formData items appliedDiscount w))"
    using assms(1-4) verdict reads
    by (cases "fst (auth_me w)"; cases "fst ?v")
       (simp_all add: handleSubmit_def case_prod_beta)
qed

lemma handleSubmit_stock_failure:
  assumes "no_faults w" and "session w = Some u"
    and "f_firstName formData \<noteq> []" and "f_lastName formData \<noteq> []"
    and "f_email formData \<noteq> []" and "f_address formData \<noteq> []"
    and "\<not> list_all (passes w) items"
  shows "\<exists>errors. errors \<noteq> []
            \<and> fst (handleSubmit formData items appliedDiscount w) = Stock_validation_failed errors"
proof -
  let ?w1 = "logged Auth_me w"
  from assms(1) have "no_faults ?w1" by simp
  then obtain errors where e: "fst (validate_stock items ?w1) = Some errors"
    using validate_stock_answers by blast
  with validate_stock_verdict [of items ?w1 errors] assms(7) have "errors \<noteq> []"
    by (auto simp add: list_all_iff)
  moreover have "fst (handleSubmit formData items appliedDiscount w)
      = Stock_validation_failed errors"
    using assms(1-6) e \<open>errors \<noteq> []\<close>
    by (simp add: handleSubmit_def auth_me_ok case_prod_beta)
  ultimately show ?thesis by blast
qed

text \<open>An entry that is not blank and whose record is missing or not usable is turned down.\<close>

lemma validateAndApplyDiscount_turns_down:
  assumes "no_faults w" and "session w = Some u" and "\<not> trim_empty code"
    and "\<not> (\<exists>discountCode. first_active_match (toUpperCase code) w = Some discountCode
              \<and> usable_by w u subtotal discountCode)"
  shows "turned_down (fst (validateAndApplyDiscount code subtotal w))"
  unfolding validateAndApplyDiscount_verdict [OF assms(1,2)]
  using assms(3,4)
  by (auto simp add: turned_down_def usable_by_def split: option.splits)

text \<open>
  C7, as the code has it. A checkout form with an empty required field and a blank
  discount entry are turned down before any backend call: the store comes back as it
  was, log included. With the form filled, a cart with a line item that does not pass the
  stock validation (it has no product, its product is gone from the store, or the stock
  in the store is below its quantity) never places the order: the checkout ends in the
  stock failure, or in the general failure when a request rejected, after backend calls
  that were all reads; with a signed-in user and no request rejecting it ends in the
  stock failure, with a message. An entry the widget turns down after the lookup
  (invalid, expired, used up, below the minimum, already used) comes after backend
  calls, all of them reads; and with a signed-in user and no request rejecting, every
  entry that is not blank and whose record is missing or not usable is so turned down.
  In all these cases the store is unchanged but for the log.
\<close>

theorem validation_failures_never_write:
  "(f_firstName formData = [] \<or> f_lastName formData = [] \<or> f_email formData = []
      \<or> f_address formData = []
     \<longrightarrow> handleSubmit formData items appliedDiscount w = (Required_fields_missing, w))
   \<and> (trim_empty code \<longrightarrow> validateAndApplyDiscount code subtotal w = (Please_enter_code, w))
   \<and> (f_firstName formData \<noteq> [] \<and> f_lastName formData \<noteq> [] \<and> f_email formData \<noteq> []
        \<and> f_address formData \<noteq> [] \<and> \<not> list_all (passes w) items
        \<longrightarrow> (fst (handleSubmit formData items appliedDiscount w) = Order_failed
              \<or> (\<exists>errors. errors \<noteq> []
                   \<and> fst (handleSubmit formData items appliedDiscount w)
                       = Stock_validation_failed errors))
          \<and> only_reads w (snd (handleSubmit formData items appliedDiscount w))
          \<and> calls (snd (handleSubmit formData items appliedDiscount w)) \<noteq> calls w)
   \<and> (no_faults w \<and> session w = Some u
        \<and> f_firstName formData \<noteq> [] \<and> f_lastName formData \<noteq> [] \<and> f_email formData \<noteq> []
        \<and> f_address formData \<noteq> [] \<and> \<not> list_all (passes w) items
        \<longrightarrow> (\<exists>errors. errors \<noteq> []
               \<and> fst (handleSubmit formData items appliedDiscount w)
                   = Stock_validation_failed errors))
   \<and> (\<forall>errors. fst (handleSubmit formData items appliedDiscount w) = Stock_validation_failed errors
        \<longrightarrow> only_reads w (snd (handleSubmit formData items appliedDiscount w))
          \<and> calls (snd (handleSubmit formData items appliedDiscount w)) \<noteq> calls w)
   \<and> (turned_down (fst (validateAndApplyDiscount code subtotal w))
        \<longrightarrow> only_reads w (snd (validateAndApplyDiscount code subtotal w))
          \<and> calls (snd (validateAndApplyDiscount code subtotal w)) \<noteq> calls w)
   \<and> (no_faults w \<and> session w = Some u \<and> \<not> trim_empty code
        \<and> \<not> (\<exists>discountCode. first_active_match (toUpperCase code) w = Some discountCode
                 \<and> usable_by w u subtotal discountCode)
        \<longrightarrow> turned_down (fst (validateAndApplyDiscount code subtotal w)))"
proof (intro conjI impI allI)
  assume "f_firstName formData = [] \<or> f_lastName formData = [] \<or> f_email formData = []
      \<or> f_address formData = []"
  then show "handleSubmit formData items appliedDiscount w = (Required_fields_missing, w)"
    by (simp add: handleSubmit_def)
next
  assume "trim_empty code"
  then show "validateAndApplyDiscount code subtotal w = (Please_enter_code, w)"
    by (simp add: validateAndApplyDiscount_def)
next
  assume a: "f_firstName formData \<noteq> [] \<and> f_lastName formData \<noteq> [] \<and> f_email formData \<noteq> []
        \<and> f_address formData \<noteq> [] \<and> \<not> list_all (passes w) items"
  then have f: "f_firstName formData \<noteq> []" "f_lastName formData \<noteq> []"
    "f_email formData \<noteq> []" "f_address formData \<noteq> []" "\<not> list_all (passes w) items"
    by simp_all
  from handleSubmit_short_of_stock(1) [OF f]
  show "fst (handleSubmit formData items appliedDiscount w) = Order_failed
      \<or> (\<exists>errors. errors \<noteq> []
           \<and> fst (handleSubmit formData items appliedDiscount w) = Stock_validation_failed errors)" .
  from only_reads_after [OF _ handleSubmit_short_of_stock(2) [OF f]]
  show "only_reads w (snd (handleSubmit formData items appliedDiscount w))"
    and "calls (snd (handleSubmit formData items appliedDiscount w)) \<noteq> calls w"
    by simp_all
next
  assume a: "no_faults w \<and> session w = Some u
        \<and> f_firstName formData \<noteq> [] \<and> f_lastName formData \<noteq> [] \<and> f_email formData \<noteq> []
        \<and> f_address formData \<noteq> [] \<and> \<not> list_all (passes w) items"
  then have f: "no_faults w" "session w = Some u" "f_firstName formData \<noteq> []"
    "f_lastName formData \<noteq> []" "f_email formData \<noteq> []" "f_address formData \<noteq> []"
    "\<not> list_all (passes w) items"
    by simp_all
  from handleSubmit_stock_failure [OF f]
  show "\<exists>errors. errors \<noteq> []
      \<and> fst (handleSubmit formData items appliedDiscount w) = Stock_validation_failed errors" .
next
  fix errors
  assume a: "fst (handleSubmit formData items appliedDiscount w) = Stock_validation_failed errors"
  from only_reads_after [OF _ handleSubmit_stock_failure_reads [OF a]]
  show "only_reads w (snd (handleSubmit formData items appliedDiscount w))"
    and "calls (snd (handleSubmit formData items appliedDiscount w)) \<noteq> calls w"
    by simp_all
next
  assume t: "turned_down (fst (validateAndApplyDiscount code subtotal w))"
  then have nb: "\<not> trim_empty code"
    by (auto simp add: validateAndApplyDiscount_def turned_down_def)
  from only_reads_after [OF _ validateAndApplyDiscount_reads_after_auth [OF nb]]
  show "only_reads w (snd (validateAndApplyDiscount code subtotal w))"
    by simp
  from only_reads_after [OF _ validateAndApplyDiscount_reads_after_auth [OF nb]]
  show "calls (snd (validateAndApplyDiscount code subtotal w)) \<noteq> calls w"
    by simp
next
  assume a: "no_faults w \<and> session w = Some u \<and> \<not> trim_empty code
        \<and> \<not> (\<exists>discountCode. first_active_match (toUpperCase code) w = Some discountCode
                 \<and> usable_by w u subtotal discountCode)"
  then show "turned_down (fst (validateAndApplyDiscount code subtotal w))"
    by (intro validateAndApplyDiscount_turns_down [of w u]) simp_all
qed

lemma expired_run:
  "validateAndApplyDiscount ''save10'' 100 shop_late
     = (Expired_code, shop_late\<lparr>calls := [Auth_me, Db_list DiscountCodes [''SAVE10'', ''1'']]\<rparr>)"
  by (simp add: validateAndApplyDiscount_def trim_empty_def whiteSpace_def auth_me_def
      active_codes_def db_read_def toUpperCase_save10 shop_late_def shop_def save10_def
      expired_def logged_def)

lemma short_stock_run:
  "handleSubmit filled_form [lamp_line 9] None shop
     = (Stock_validation_failed [Insufficient_stock ''Lamp'' 5 9],
        shop\<lparr>calls := [Auth_me, Db_list Products [''p1'']]\<rparr>)"
  by (simp add: handleSubmit_def filled_form_def lamp_line_def auth_me_def products_by_id_def
      db_read_def shop_def lamp_def desk_def to_view_def stock_errors_of_def or_else_def
      logged_def)

text \<open>
  C7 as stated fails: the expired code is turned down after \<open>auth.me\<close> and the lookup of
  the code, and the order short of stock after \<open>auth.me\<close> and the fetch of the product.
\<close>

theorem validation_failures_call_the_backend_counterexample:
  "fst (validateAndApplyDiscount ''save10'' 100 shop_late) = Expired_code
   \<and> calls shop_late = []
   \<and> calls (snd (validateAndApplyDiscount ''save10'' 100 shop_late))
       = [Auth_me, Db_list DiscountCodes [''SAVE10'', ''1'']]
   \<and> fst (handleSubmit filled_form [lamp_line 9] None shop)
       = Stock_validation_failed [Insufficient_stock ''Lamp'' 5 9]
   \<and> calls shop = []
   \<and> calls (snd (handleSubmit filled_form [lamp_line 9] None shop))
       = [Auth_me, Db_list Products [''p1'']]"
  by (simp add: expired_run short_stock_run) (simp add: shop_late_def shop_def)

text \<open>
  The cases in the small shop: an empty email field, a blank entry, nine lamps where
  five are in stock, and the code \<open>save10\<close> after it has expired.
\<close>

theorem validation_failures_never_write_witness:
  "handleSubmit (filled_form\<lparr>f_email := []\<rparr>) [lamp_line 1] None shop = (Required_fields_missing, shop)
   \<and> validateAndApplyDiscount ''  '' 100 shop = (Please_enter_code, shop)
   \<and> \<not> list_all (passes shop) [lamp_line 9]
   \<and> fst (handleSubmit filled_form [lamp_line 9] None shop) \<noteq> Order_placed
   \<and> fst (handleSubmit filled_form [lamp_line 9] None shop) \<noteq> Order_failed
   \<and> only_reads shop (snd (handleSubmit filled_form [lamp_line 9] None shop))
   \<and> \<not> usable_by shop_late buyer 100 save10
   \<and> turned_down (fst (validateAndApplyDiscount ''save10'' 100 shop_late))
   \<and> only_reads shop_late (snd (validateAndApplyDiscount ''save10'' 100 shop_late))"
proof -
  note t1 = validation_failures_never_write
    [of "filled_form\<lparr>f_email := []\<rparr>" "[lamp_line 1]" None shop "''  ''" 100 buyer]
  note t2 = validation_failures_never_write
    [of filled_form "[lamp_line 9]" None shop "''save10''" 100 buyer]
  note t3 = validation_failures_never_write
    [of filled_form "[lamp_line 9]" None shop_late "''save10''" 100 buyer]
  have form: "f_firstName filled_form \<noteq> []" "f_lastName filled_form \<noteq> []"
    "f_email filled_form \<noteq> []" "f_address filled_form \<noteq> []"
    by (simp_all add: filled_form_def)
  have se: "session shop = Some buyer" "session shop_late = Some buyer"
    by (simp_all add: shop_def shop_late_def)
  have nf: "no_faults shop_late" by (simp add: no_faults_def shop_late_def shop_def)
  have short: "\<not> list_all (passes shop) [lamp_line 9]"
    by (simp add: passes_def lamp_line_def shop_def lamp_def desk_def stock_of_def or_else_def)
  have m: "first_active_match (toUpperCase ''save10'') shop_late = Some save10"
    by (simp add: toUpperCase_save10 first_active_match_def shop_late_def shop_def save10_def)
  have late: "\<not> usable_by shop_late buyer 100 save10"
    by (simp add: usable_by_def expired_def shop_late_def shop_def save10_def)
  have nb: "\<not> trim_empty ''save10''" by (simp add: trim_empty_def whiteSpace_def)
  have 1: "handleSubmit (filled_form\<lparr>f_email := []\<rparr>) [lamp_line 1] None shop
      = (Required_fields_missing, shop)"
    using t1 by simp
  have 2: "validateAndApplyDiscount ''  '' 100 shop = (Please_enter_code, shop)"
    using t1 by (simp add: trim_empty_def whiteSpace_def)
  from t2 shop_no_faults se(1) form short
  obtain errors where e: "errors \<noteq> []"
    "fst (handleSubmit filled_form [lamp_line 9] None shop) = Stock_validation_failed errors"
    by blast
  have 3: "fst (handleSubmit filled_form [lamp_line 9] None shop) \<noteq> Order_placed"
    "fst (handleSubmit filled_form [lamp_line 9] None shop) \<noteq> Order_failed"
    using e(2) by simp_all
  have 4: "only_reads shop (snd (handleSubmit filled_form [lamp_line 9] None shop))"
    using t2 form short by blast
  have 5: "turned_down (fst (validateAndApplyDiscount ''save10'' 100 shop_late))"
    using t3 nf se(2) nb m late by simp
  have 6: "only_reads shop_late (snd (validateAndApplyDiscount ''save10'' 100 shop_late))"
    using t3 5 by blast
  from 1 2 short 3 4 late 5 6 show ?thesis by (intro conjI)
qed


section \<open>Stock written at checkout\<close>

lemma kept_refl: "stock_kept_or_clamped items w w"
  by (simp add: stock_kept_or_clamped_def list_all_iff)

lemma kept_same_products:
  "stock_kept_or_clamped items w w1 \<Longrightarrow> products w2 = products w1
     \<Longrightarrow> stock_kept_or_clamped items w w2"
  by (simp add: stock_kept_or_clamped_def)

lemma kept_after_write:
  assumes "stock_kept_or_clamped items w w1"
    and "item \<in> set items" and "ci_product item = Some product"
    and "products w2 = map (\<lambda>p. if p_id p = ci_productId item
            then p\<lparr>p_stock_quantity := Some (newStock item product)\<rparr> else p) (products w1)"
  shows "stock_kept_or_clamped items w w2"
  unfolding stock_kept_or_clamped_def list_all_iff
proof
  fix p' assume "p' \<in> set (products w2)"
  then obtain p where p: "p \<in> set (products w1)"
     "p' = (if p_id p = ci_productId item
            then p\<lparr>p_stock_quantity := Some (newStock item product)\<rparr> else p)"
    using assms(4) by auto
  show "p' \<in> set (products w) \<or> clamped_write items p'"
  proof (cases "p_id p = ci_productId item")
    case True
    then have "clamped_write items p'"
      using p(2) assms(2,3)
      by (auto simp add: clamped_write_def list_ex_iff newStock_def intro!: bexI [of _ item])
    then show ?thesis by simp
  next
    case False
    then have "p' = p" using p(2) by simp
    with p(1) assms(1) show ?thesis
      by (simp add: stock_kept_or_clamped_def list_all_iff)
  qed
qed

text \<open>One round of the loop writes the clamped stock of its line item, or no stock at all.\<close>

lemma place_item_products:
  "products (snd (place_item orderId item w)) = products w
   \<or> (\<exists>product. ci_product item = Some product
        \<and> products (snd (place_item orderId item w))
            = map (\<lambda>p. if p_id p = ci_productId item
                then p\<lparr>p_stock_quantity := Some (newStock item product)\<rparr> else p) (products w))"
  by (simp add: place_item_def new_id_def orderItems_create_def products_update_stock_def
      products_by_id_def sellerEarnings_create_def db_write_def db_read_def case_prod_beta
      split: option.splits list.splits bool.splits)

lemma place_items_kept:
  assumes "set items \<subseteq> set all" and "stock_kept_or_clamped all w0 w"
  shows "stock_kept_or_clamped all w0 (snd (place_items orderId items w))"
  using assms
proof (induction items arbitrary: w)
  case Nil
  then show ?case by simp
next
  case (Cons item items)
  let ?w1 = "snd (place_item orderId item w)"
  have k1: "stock_kept_or_clamped all w0 ?w1"
    using place_item_products [of orderId item w]
  proof
    assume "products ?w1 = products w"
    with Cons.prems(2) show ?thesis by (rule kept_same_products)
  next
    assume "\<exists>product. ci_product item = Some product
        \<and> products ?w1 = map (\<lambda>p. if p_id p = ci_productId item
                then p\<lparr>p_stock_quantity := Some (newStock item product)\<rparr> else p) (products w)"
    then obtain product where "ci_product item = Some product"
      "products ?w1 = map (\<lambda>p. if p_id p = ci_productId item
                then p\<lparr>p_stock_quantity := Some (newStock item product)\<rparr> else p) (products w)"
      by blast
    with Cons.prems show ?thesis
      by (intro kept_after_write [of all w0 w item product ?w1]) simp_all
  qed
  have "stock_kept_or_clamped all w0 (snd (place_items orderId items ?w1))"
    using Cons.prems(1) k1 by (intro Cons.IH) simp_all
  with k1 show ?case
    by (cases "fst (place_item orderId item w)") (simp_all add: case_prod_beta split: bool.splits)
qed

lemma db_read_products [simp]: "products (snd (db_read c x w)) = products w"
  by (simp add: db_read_def)

lemma record_discount_use_products:
  "products (snd (record_discount_use orderId u appliedDiscount w)) = products w"
  by (simp add: record_discount_use_def new_id_def db_write_def db_read_def case_prod_beta
      split: option.splits list.splits bool.splits)

lemma clear_cart_products: "products (snd (clear_cart items w)) = products w"
proof (induction items arbitrary: w)
  case Nil
  then show ?case by simp
next
  case (Cons item items)
  have "products (snd (cartItems_delete (ci_id item) w)) = products w"
    by (simp add: cartItems_delete_def db_write_def)
  with Cons.IH show ?case
    by (simp add: case_prod_beta split: bool.splits)
qed

lemma write_order_kept:
  "stock_kept_or_clamped items w (snd (write_order formData items appliedDiscount u w))"
proof -
  let ?orderId = "fst (new_id ''order_'' w)"
  let ?w1 = "snd (new_id ''order_'' w)"
  let ?row = "\<lparr>o_id = ?orderId, o_user_id = user_id u,
       o_total_amount = Checkout_calculateTotal items appliedDiscount,
       o_subtotal_amount = calculateSubtotal items,
       o_discount_amount = discount_amount appliedDiscount,
       o_discount_code =
         (case appliedDiscount of
            None \<Rightarrow> None
          | Some applied \<Rightarrow> if ad_code applied = [] then None else Some (ad_code applied)),
       o_status = ''completed'',
       o_shipping_address = shippingAddress formData\<rparr>"
  let ?w2 = "snd (orders_create ?row ?w1)"
  let ?w3 = "snd (place_items ?orderId items ?w2)"
  let ?w4 = "snd (record_discount_use ?orderId u appliedDiscount ?w3)"
  let ?w5 = "snd (clear_cart items ?w4)"
  have p2: "products ?w2 = products w"
    by (simp add: orders_create_def db_write_def new_id_def)
  have k2: "stock_kept_or_clamped items w ?w2"
    using kept_refl p2 by (rule kept_same_products)
  have k3: "stock_kept_or_clamped items w ?w3"
    using k2 by (intro place_items_kept) simp_all
  have k4: "stock_kept_or_clamped items w ?w4"
    using k3 record_discount_use_products by (rule kept_same_products)
  have k5: "stock_kept_or_clamped items w ?w5"
    using k4 clear_cart_products by (rule kept_same_products)
  show ?thesis
    using k2 k3 k4 k5
    by (simp add: write_order_def case_prod_beta Let_def split: bool.splits)
qed

lemma validate_stock_products [simp]: "products (snd (validate_stock items w)) = products w"
  using only_reads_fields(6) [OF validate_stock_reads] .

lemma handleSubmit_kept:
  "stock_kept_or_clamped items w (snd (handleSubmit formData items appliedDiscount w))"
proof -
  let ?w2 = "snd (validate_stock items (logged Auth_me w))"
  have p2: "products ?w2 = products w" by simp
  have "\<And>u. stock_kept_or_clamped items ?w2 (snd (write_order formData items appliedDiscount u ?w2))"
    by (rule write_order_kept)
  then have k3: "\<And>u. stock_kept_or_clamped items w (snd (write_order formData items appliedDiscount u ?w2))"
    using p2 by (simp add: stock_kept_or_clamped_def)
  have k1: "stock_kept_or_clamped items w (logged Auth_me w)"
    using kept_refl by (rule kept_same_products) simp
  have k2: "stock_kept_or_clamped items w ?w2"
    using kept_refl p2 by (rule kept_same_products)
  show ?thesis
    using k1 k2 k3 kept_refl [of items w]
    by (simp add: handleSubmit_def case_prod_beta split: option.splits bool.splits)
qed

lemma clamped_write_nonneg: "clamped_write items p \<Longrightarrow> 0 \<le> stock_of p"
  by (auto simp add: clamped_write_def list_ex_iff stock_of_def or_else_def split: option.splits)

text \<open>
  C10. Whatever the form, the cart, the discount and the answers of the backend, after
  \<open>handleSubmit\<close> every product row is either a row the store already had or a row whose
  stock a line item of its product has set to \<open>max(0, stockQuantity - quantity)\<close>, from
  the stock loaded with the cart. So no row written by a checkout has a negative stock,
  also when the quantity bought exceeds the stock recorded in the cart.
\<close>

theorem handleSubmit_never_writes_negative_stock:
  "stock_kept_or_clamped items w (snd (handleSubmit formData items appliedDiscount w))
   \<and> never_negative w (snd (handleSubmit formData items appliedDiscount w))"
proof -
  have k: "stock_kept_or_clamped items w (snd (handleSubmit formData items appliedDiscount w))"
    by (rule handleSubmit_kept)
  then have "never_negative w (snd (handleSubmit formData items appliedDiscount w))"
    using clamped_write_nonneg [of items]
    by (auto simp add: stock_kept_or_clamped_def never_negative_def list_all_iff)
  with k show ?thesis by simp
qed

text \<open>
  Seven lamps are bought from a cart that recorded a stock of 5 while the store has 8:
  the validation passes and the stock written is 0, not -2.
\<close>

lemma restocked_run:
  "fst (handleSubmit filled_form [lamp_line 7] None shop_restocked) = Order_placed
   \<and> map p_stock_quantity (products (snd (handleSubmit filled_form [lamp_line 7] None shop_restocked)))
       = [Some 0, Some 4]"
  by (simp add: handleSubmit_def filled_form_def lamp_line_def auth_me_def products_by_id_def
      db_read_def db_write_def shop_restocked_def shop_def lamp_def desk_def to_view_def
      stock_errors_of_def or_else_def logged_def write_order_def new_id_def orders_create_def
      place_item_def orderItems_create_def products_update_stock_def newStock_def
      sellerEarnings_create_def record_discount_use_def cartItems_delete_def
      case_prod_beta Let_def)

theorem handleSubmit_never_writes_negative_stock_witness:
  "never_negative shop_restocked (snd (handleSubmit filled_form [lamp_line 7] None shop_restocked))
   \<and> map p_stock_quantity
         (products (snd (handleSubmit filled_form [lamp_line 7] None shop_restocked)))
       = [Some 0, Some 4]"
  using handleSubmit_never_writes_negative_stock
    [of "[lamp_line 7]" shop_restocked filled_form None] restocked_run
  by simp

section \<open>Adding a product that is already in the cart\<close>

text \<open>
  The listing page and the product page, when the user has a row for the product: within
  the stock the first such row gets the combined quantity and no row is added; beyond the
  stock nothing is written.
\<close>

lemma HomePage_addToCart_existing:
  assumes "no_faults w" and "session w = Some u"
    and "existing_row (user_id u) (pv_id product) w = Some existing"
  shows "c_quantity existing + 1 \<le> pv_stockQuantity product \<and> 0 < pv_stockQuantity product
           \<longrightarrow> fst (HomePage_addToCart product w) = Added_to_cart
               \<and> cartItems (snd (HomePage_addToCart product w))
                   = with_quantity (c_id existing) (c_quantity existing + 1) (cartItems w)"
    and "c_quantity existing + 1 > pv_stockQuantity product
           \<longrightarrow> fst (HomePage_addToCart product w) \<noteq> Added_to_cart
               \<and> only_reads w (snd (HomePage_addToCart product w))"
proof -
  from assms(3) obtain others where
    f: "filter (\<lambda>r. c_user_id r = user_id u \<and> c_product_id r = pv_id product) (cartItems w)
          = existing # others"
    by (auto simp add: existing_row_def split: list.splits)
  have r: "only_reads w (logged (Db_list CartItems [user_id u, pv_id product]) (logged Auth_me w))"
    using only_reads_logged only_reads_trans is_read.simps by blast
  show "c_quantity existing + 1 \<le> pv_stockQuantity product \<and> 0 < pv_stockQuantity product
           \<longrightarrow> fst (HomePage_addToCart product w) = Added_to_cart
               \<and> cartItems (snd (HomePage_addToCart product w))
                   = with_quantity (c_id existing) (c_quantity existing + 1) (cartItems w)"
    using assms(1,2) f
    by (simp add: HomePage_addToCart_def auth_me_ok cartItems_of_user_product_def db_read_ok
        added_def cartItems_update_quantity_def db_write_ok with_quantity_def Let_def)
  show "c_quantity existing + 1 > pv_stockQuantity product
           \<longrightarrow> fst (HomePage_addToCart product w) \<noteq> Added_to_cart
               \<and> only_reads w (snd (HomePage_addToCart product w))"
    using assms(1,2) f r
    by (simp add: HomePage_addToCart_def auth_me_ok cartItems_of_user_product_def db_read_ok
        Let_def)
qed

lemma ProductDetails_addToCart_existing:
  assumes "no_faults w" and "session w = Some u"
    and "existing_row (user_id u) (pv_id product) w = Some existing"
  shows "c_quantity existing + quantity \<le> pv_stockQuantity product
           \<and> 0 < pv_stockQuantity product \<and> quantity \<le> pv_stockQuantity product
           \<longrightarrow> fst (ProductDetails_addToCart (Some product) quantity w) = Added_to_cart
               \<and> cartItems (snd (ProductDetails_addToCart (Some product) quantity w))
                   = with_quantity (c_id existing) (c_quantity existing + quantity) (cartItems w)"
    and "c_quantity existing + quantity > pv_stockQuantity product
           \<longrightarrow> fst (ProductDetails_addToCart (Some product) quantity w) \<noteq> Added_to_cart
               \<and> only_reads w (snd (ProductDetails_addToCart (Some product) quantity w))"
proof -
  from assms(3) obtain others where
    f: "filter (\<lambda>r. c_user_id r = user_id u \<and> c_product_id r = pv_id product) (cartItems w)
          = existing # others"
    by (auto simp add: existing_row_def split: list.splits)
  have r: "only_reads w (logged (Db_list CartItems [user_id u, pv_id product]) (logged Auth_me w))"
    using only_reads_logged only_reads_trans is_read.simps by blast
  show "c_quantity existing + quantity \<le> pv_stockQuantity product
           \<and> 0 < pv_stockQuantity product \<and> quantity \<le> pv_stockQuantity product
           \<longrightarrow> fst (ProductDetails_addToCart (Some product) quantity w) = Added_to_cart
               \<and> cartItems (snd (ProductDetails_addToCart (Some product) quantity w))
                   = with_quantity (c_id existing) (c_quantity existing + quantity) (cartItems w)"
    using assms(1,2) f
    by (simp add: ProductDetails_addToCart_def auth_me_ok cartItems_of_user_product_def db_read_ok
        added_def cartItems_update_quantity_def db_write_ok with_quantity_def Let_def)
  show "c_quantity existing + quantity > pv_stockQuantity product
           \<longrightarrow> fst (ProductDetails_addToCart (Some product) quantity w) \<noteq> Added_to_cart
               \<and> only_reads w (snd (ProductDetails_addToCart (Some product) quantity w))"
    using assms(1,2) f r
    by (simp add: ProductDetails_addToCart_def auth_me_ok cartItems_of_user_product_def db_read_ok
        Let_def)
qed

text \<open>The book page increments the row whatever the stock.\<close>

lemma BookDetails_addToCart_existing:
  assumes "no_faults w" and "session w = Some u"
    and "existing_row (user_id u) (b_id b) w = Some existing"
  shows "fst (BookDetails_addToCart (Some b) w) = Added_to_cart
       \<and> cartItems (snd (BookDetails_addToCart (Some b) w))
           = with_quantity (c_id existing) (c_quantity existing + 1) (cartItems w)"
proof -
  from assms(3) obtain others where
    f: "filter (\<lambda>r. c_user_id r = user_id u \<and> c_product_id r = b_id b) (cartItems w)
          = existing # others"
    by (auto simp add: existing_row_def split: list.splits)
  show ?thesis
    using assms(1,2) f
    by (simp add: BookDetails_addToCart_def auth_me_ok cartItems_of_user_product_def db_read_ok
        added_def cartItems_update_quantity_def db_write_ok with_quantity_def)
qed

text \<open>
  C5 fails on the book page. The buyer's cart holds two of \<open>p1\<close> and two are in stock.
  Adding once more on the book page succeeds and leaves three in the cart, where the
  claim has the action rejected and the cart untouched; the listing page, given the same
  stock, rejects and leaves the cart as it was.
\<close>

theorem BookDetails_addToCart_exceeds_stock:
  "map c_quantity (cartItems shop) = [2, 2, 1]
   \<and> b_stockQuantity lamp_book = 2
   \<and> fst (BookDetails_addToCart (Some lamp_book) shop) = Added_to_cart
   \<and> map c_quantity (cartItems (snd (BookDetails_addToCart (Some lamp_book) shop))) = [3, 2, 1]
   \<and> fst (HomePage_addToCart (to_view (lamp\<lparr>p_stock_quantity := Some 2\<rparr>)) shop)
       = Exceeds_stock_with_cart
   \<and> map c_quantity
       (cartItems (snd (HomePage_addToCart (to_view (lamp\<lparr>p_stock_quantity := Some 2\<rparr>)) shop)))
       = [2, 2, 1]"
  by (simp add: BookDetails_addToCart_def HomePage_addToCart_def lamp_book_def auth_me_def
      cartItems_of_user_product_def db_read_def db_write_def added_def
      cartItems_update_quantity_def shop_def buyer_def logged_def to_view_def lamp_def
      or_else_def)


section \<open>A completed checkout\<close>


text \<open>On the checkout page one rejected product fetch fails the whole load.\<close>

lemma Checkout_fetch_products_rejected:
  "r \<in> set rows \<Longrightarrow> fault w (Db_list Products [c_product_id r])
     \<Longrightarrow> fst (Checkout_fetch_products rows w) = None"
proof (induction rows arbitrary: w)
  case Nil
  then show ?case by simp
next
  case (Cons row rows)
  show ?case
  proof (cases "fault w (Db_list Products [c_product_id row])")
    case True
    then show ?thesis by (simp add: products_by_id_eq case_prod_beta)
  next
    case False
    with Cons.prems have "r \<in> set rows" by auto
    moreover have "fault (logged (Db_list Products [c_product_id row]) w)
        (Db_list Products [c_product_id r])"
      using Cons.prems(2) by simp
    ultimately have "fst (Checkout_fetch_products rows
        (logged (Db_list Products [c_product_id row]) w)) = None"
      by (rule Cons.IH)
    then show ?thesis by (simp add: products_by_id_eq case_prod_beta)
  qed
qed










lemma stock_step_ids: "map p_id (stock_step item ps) = map p_id ps"
  by (auto simp add: stock_step_def split: option.splits)








lemma stock_of_view [simp]: "pv_stockQuantity (to_view p) = stock_of p"
  by (simp add: to_view_def stock_of_def)



lemma set_order_desc [simp]: "set (order_desc key rows) = set rows"
  by (simp add: order_desc_def)
















end
